theory Spec2Isabelle
  imports Complex_Main "HOL-Library.Word"
begin

section \<open>SubQG image transformer: simulator, projection analysis, pixel transform\<close>

text \<open>
  A JavaScript \<open>number\<close> is modelled as a \<^typ>\<open>real\<close> and the arithmetic on numbers
  is exact. Two things of the floating-point numbers are kept, because the program's
  results depend on them. A division by zero gives NaN or an infinity, not a number:
  where the source divides by a value that can be zero, the quotient is an option and
  \<open>None\<close> stands for NaN and the infinities. And \<open>Math.PI\<close> is not \<open>\<pi>\<close> but the double
  nearest to it, so that the sine of a multiple of \<open>Math.PI\<close> is small but not zero.
  Numbers the program uses as array lengths, loop bounds or counters are \<^typ>\<open>int\<close> or
  \<^typ>\<open>nat\<close>. A byte of a \<open>Uint8ClampedArray\<close> is an \<^typ>\<open>8 word\<close>.
\<close>

subsection \<open>JavaScript built-ins\<close>

text \<open>The exceptions the modelled code can raise.\<close>

datatype js_error = RangeError | TypeError | IndexSizeError

text \<open>
  \<open>Math.PI\<close>, the double \<open>0x400921FB54442D18\<close>: \<open>884279719003555 / 2^48\<close>, a little
  below \<open>\<pi>\<close>.
\<close>

definition Math_PI :: real where
  "Math_PI = 884279719003555 / 281474976710656"


text \<open>\<open>Math.round\<close> rounds to the nearest integer, ties towards \<open>+\<infinity>\<close>.\<close>

definition Math_round :: "real \<Rightarrow> real" where
  "Math_round x = of_int \<lfloor>x + 1 / 2\<rfloor>"

subsection \<open>types.ts\<close>

text \<open>
  The grid sizes, the duration and the precision are integers: they are array lengths,
  a loop bound and an exponent, and \<open>Array\<close> raises \<open>RangeError\<close> on a length that is
  not a whole number.
\<close>

record SubQGParams =
  sim_duration :: int
  noise_factor :: real
  threshold_s :: real
  decimal_precision :: int
  f_energy :: real
  f_phase :: real
  re_s_scaling_c :: real
  field_w :: int
  field_h :: int

record RiemannStats =
  mean_re_s :: real
  median_re_s :: real
  std_dev_re_s :: real
  count_near_0_5 :: nat
  total_projected_knots :: nat
  harmony_score :: real
  internal_prescale_factor_used :: real
  knot_map_visual_uri :: "string option"

type_synonym KnotMap = "nat list list"

subsection \<open>mathHelpers.ts: statistics helpers\<close>

definition calculateMean :: "real list \<Rightarrow> real" where
  "calculateMean arr =
     (if length arr = 0 then 0
      else foldl (\<lambda>sum val. sum + val) 0 arr / real (length arr))"

definition calculateMedian :: "real list \<Rightarrow> real" where
  "calculateMedian arr =
     (if length arr = 0 then 0
      else let sortedArr = sort arr;
               mid = length sortedArr div 2
           in if length sortedArr mod 2 \<noteq> 0 then sortedArr ! mid
              else (sortedArr ! (mid - 1) + sortedArr ! mid) / 2)"

definition calculateStdDev :: "real list \<Rightarrow> real" where
  "calculateStdDev arr =
     (if length arr \<le> 1 then 0
      else let mean = calculateMean arr;
               variance = foldl (\<lambda>sum val. sum + (val - mean) ^ 2) 0 arr / real (length arr)
           in sqrt variance)"

text \<open>
  \<open>Math.max(...arr) - Math.min(...arr)\<close>; the empty array is answered before the spread.
  A spread passes every element of the array as an argument of the call, and an engine
  raises \<open>RangeError\<close> for a call with more arguments than it accepts. That number is
  the engine's, not the program's (it is of the order of \<open>10^5\<close>): it is the parameter
  \<open>max_arguments\<close>. The other helpers go through the array with \<open>reduce\<close> and have no
  such limit.
\<close>

definition calculatePtp :: "nat \<Rightarrow> real list \<Rightarrow> js_error + real" where
  "calculatePtp max_arguments arr =
     (case arr of
        [] \<Rightarrow> Inr 0
      | x # xs \<Rightarrow>
          if max_arguments < length arr then Inl RangeError
          else Inr (foldl max x xs - foldl min x xs))"

definition clamp :: "real \<Rightarrow> real \<Rightarrow> real \<Rightarrow> real" where
  "clamp val lo hi = min (max val lo) hi"

text \<open>
  \<open>linspace\<close>: \<open>step = (stop - start) / (num - 1)\<close>. For \<open>num = 1\<close> the division is by
  zero, \<open>step\<close> is infinite or NaN and \<open>start + step * 0\<close> is NaN: the single sample is
  \<open>None\<close>. For \<open>num \<le> 0\<close> the loop body never runs.
\<close>

definition linspace :: "real \<Rightarrow> real \<Rightarrow> int \<Rightarrow> real option list" where
  "linspace start stop num =
     (if num = 1 then [None]
      else let step = (stop - start) / real_of_int (num - 1)
           in map (\<lambda>i. Some (start + step * real i)) [0..<nat num])"

subsection \<open>SubQGSimulator: state\<close>

record SubQGSimulator =
  params :: SubQGParams
  energy_field :: "real option list list"
  phase_field :: "real option list list"
  knot_map :: KnotMap
  detected_knot_base_values :: "real list"
  rounding_factor :: real
  omega_energy :: real
  omega_phase :: real

subsection \<open>SubQGSimulator.analyzeRiemannProjection\<close>

definition internal_prescale_factor :: real where
  "internal_prescale_factor = 5"

definition target_re_s :: real where
  "target_re_s = 1 / 2"

definition interval_radius :: real where
  "interval_radius = 5 / 100"

definition projected_re_s_values :: "SubQGSimulator \<Rightarrow> real list" where
  "projected_re_s_values this =
     map (\<lambda>val. (val * internal_prescale_factor) * re_s_scaling_c (params this))
       (detected_knot_base_values this)"

text \<open>
  The standard deviation line:
  \<open>(projected.length > 1 && calculatePtp(projected) > 0) ? calculateStdDev(projected) : 1.0\<close>.
  \<open>calculatePtp\<close> is only called on more than one value, and its exception leaves the
  method.
\<close>

definition std_dev_of :: "nat \<Rightarrow> real list \<Rightarrow> js_error + real" where
  "std_dev_of max_arguments projected =
     (if length projected > 1 then
        (case calculatePtp max_arguments projected of
           Inl e \<Rightarrow> Inl e
         | Inr ptp \<Rightarrow> Inr (if ptp > 0 then calculateStdDev projected else 1))
      else Inr 1)"

definition analyzeRiemannProjection :: "nat \<Rightarrow> SubQGSimulator \<Rightarrow> js_error + RiemannStats" where
  "analyzeRiemannProjection max_arguments this =
     (if length (detected_knot_base_values this) = 0 then
        Inr \<lparr> mean_re_s = 0, median_re_s = 0, std_dev_re_s = 1,
              count_near_0_5 = 0, total_projected_knots = 0, harmony_score = 0,
              internal_prescale_factor_used = 0, knot_map_visual_uri = None \<rparr>
      else
        let projected = projected_re_s_values this;
            mean = calculateMean projected;
            median = calculateMedian projected
        in case std_dev_of max_arguments projected of
             Inl e \<Rightarrow> Inl e
           | Inr std_dev \<Rightarrow>
               (let count_near_target =
                      length (filter (\<lambda>val. val \<ge> target_re_s - interval_radius
                                            \<and> val \<le> target_re_s + interval_radius) projected);
                    mean_proximity_score =
                      1 - min 1 (\<bar>mean - target_re_s\<bar> / (target_re_s * (1 / 2)));
                    concentration_score = 1 - min 1 (std_dev / (15 / 100));
                    harmony = clamp (mean_proximity_score * (6 / 10)
                                     + concentration_score * (4 / 10)) 0 1
                in Inr \<lparr> mean_re_s = mean, median_re_s = median, std_dev_re_s = std_dev,
                         count_near_0_5 = count_near_target,
                         total_projected_knots = length projected,
                         harmony_score = harmony,
                         internal_prescale_factor_used = internal_prescale_factor,
                         knot_map_visual_uri = None \<rparr>))"

subsection \<open>SubQGSimulator: construction\<close>

text \<open>
  \<open>Array(n).fill(v)\<close>: the \<open>Array\<close> constructor raises \<open>RangeError\<close> unless \<open>n\<close> is an
  array length, an integer from \<open>0\<close> to \<open>2^32 - 1\<close>.
\<close>

definition Array_fill :: "int \<Rightarrow> 'a \<Rightarrow> js_error + 'a list" where
  "Array_fill n v =
     (if 0 \<le> n \<and> n \<le> 4294967295 then Inr (replicate (nat n) v) else Inl RangeError)"

text \<open>
  \<open>Array(h).fill(null).map(() => Array(w).fill(v))\<close>: the inner constructor runs once per
  row, so with no rows it never runs.
\<close>

definition Array_grid :: "int \<Rightarrow> int \<Rightarrow> 'a \<Rightarrow> js_error + 'a list list" where
  "Array_grid h w v =
     (case Array_fill h () of
        Inl e \<Rightarrow> Inl e
      | Inr rows \<Rightarrow>
          (if rows = [] then Inr []
           else case Array_fill w v of
                  Inl e \<Rightarrow> Inl e
                | Inr row \<Rightarrow> Inr (map (\<lambda>_. row) rows)))"

definition SubQGSimulator_new :: "SubQGParams \<Rightarrow> js_error + SubQGSimulator" where
  "SubQGSimulator_new p =
     (case Array_grid (field_h p) (field_w p) (Some 0) of
        Inl e \<Rightarrow> Inl e
      | Inr ef \<Rightarrow>
     (case Array_grid (field_h p) (field_w p) (Some 0) of
        Inl e \<Rightarrow> Inl e
      | Inr pf \<Rightarrow>
     (case Array_grid (field_h p) (field_w p) 0 of
        Inl e \<Rightarrow> Inl e
      | Inr km \<Rightarrow>
          Inr \<lparr> params = p, energy_field = ef, phase_field = pf, knot_map = km,
                detected_knot_base_values = [],
                rounding_factor = 10 powi (decimal_precision p),
                omega_energy = f_energy p * 2 * Math_PI,
                omega_phase = f_phase p * 2 * Math_PI \<rparr>)))"

subsection \<open>SubQGSimulator.updateWaves\<close>

text \<open>
  The method is private and is called from the time loop of \<open>runSimulation\<close> only,
  with \<open>t < sim_duration\<close>: the division by \<open>sim_duration\<close> is not by zero.
\<close>

text \<open>
  \<open>Math.random\<close> is the ambient generator: a stream of draws and the number of draws
  taken so far, which every call advances by one.
\<close>

type_synonym RandomSource = "nat \<Rightarrow> real"

text \<open>
  \<open>m[r][c] = v\<close> on a grid. The simulator's three grids are all built from the same
  \<open>field_h\<close> and \<open>field_w\<close> that bound its loops, so every access is in range.
\<close>

definition set_cell :: "'a list list \<Rightarrow> nat \<Rightarrow> nat \<Rightarrow> 'a \<Rightarrow> 'a list list" where
  "set_cell m r c v = m[r := (m ! r)[c := v]]"

definition spatial_component :: "real option \<Rightarrow> real option \<Rightarrow> real option" where
  "spatial_component xv yv =
     (case xv of
        None \<Rightarrow> None
      | Some x \<Rightarrow> (case yv of None \<Rightarrow> None | Some y \<Rightarrow> Some (sin x * cos y)))"

text \<open>
  One field value: \<open>clamp(Math.abs(time + spatial) / 2 + Math.random() * noise, 0, 1 + noise)\<close>;
  NaN stays NaN through \<open>Math.abs\<close>, \<open>Math.max\<close> and \<open>Math.min\<close>.
\<close>

definition wave_value :: "real \<Rightarrow> real option \<Rightarrow> real \<Rightarrow> real \<Rightarrow> real option" where
  "wave_value time_component spatial u noise =
     (case spatial of
        None \<Rightarrow> None
      | Some sp \<Rightarrow> Some (clamp (\<bar>time_component + sp\<bar> / 2 + u * noise) 0 (1 + noise)))"

definition updateWaves_cell ::
  "RandomSource \<Rightarrow> real \<Rightarrow> real \<Rightarrow> real option list \<Rightarrow> real option list \<Rightarrow>
   nat \<Rightarrow> SubQGSimulator \<times> nat \<Rightarrow> nat \<Rightarrow> SubQGSimulator \<times> nat" where
  "updateWaves_cell U time_component_energy time_component_phase xCoords yCoords r s c =
     (let this = fst s; draws = snd s;
          xv = xCoords ! c;
          yv = yCoords ! r;
          sp = spatial_component xv yv;
          noise = noise_factor (params this);
          e = wave_value time_component_energy sp (U draws) noise;
          p = wave_value time_component_phase sp (U (draws + 1)) noise
      in (this\<lparr> energy_field := set_cell (energy_field this) r c e,
                phase_field := set_cell (phase_field this) r c p \<rparr>,
          draws + 2))"

definition updateWaves ::
  "RandomSource \<Rightarrow> nat \<Rightarrow> SubQGSimulator \<times> nat \<Rightarrow> SubQGSimulator \<times> nat" where
  "updateWaves U t s =
     (let this = fst s;
          p = params this;
          time_component_energy = sin (omega_energy this * real t / real_of_int (sim_duration p));
          time_component_phase = sin (omega_phase this * real t / real_of_int (sim_duration p));
          xCoords = linspace 0 (2 * Math_PI) (field_w p);
          yCoords = linspace 0 (2 * Math_PI) (field_h p)
      in foldl (\<lambda>s r.
           foldl (updateWaves_cell U time_component_energy time_component_phase xCoords yCoords r)
             s [0..<nat (field_w p)])
         s [0..<nat (field_h p)])"

subsection \<open>SubQGSimulator.runSimulation\<close>

text \<open>
  The knot condition of one cell; a comparison with NaN is false. \<open>rf\<close> is the
  rounding factor.
\<close>

definition detected_knot_this_step :: "SubQGSimulator \<Rightarrow> real option \<Rightarrow> real option \<Rightarrow> bool" where
  "detected_knot_this_step this energy phase =
     (case energy of
        None \<Rightarrow> False
      | Some e \<Rightarrow>
          (case phase of
             None \<Rightarrow> False
           | Some p \<Rightarrow>
               (let rf = rounding_factor this;
                    rounded_energy = Math_round (e * rf) / rf;
                    rounded_phase = Math_round (p * rf) / rf;
                    condition1 = e > threshold_s (params this);
                    condition2 = p > threshold_s (params this);
                    condition3 = (rounded_energy = rounded_phase)
                in condition1 \<and> condition2 \<and> condition3)))"

definition runSimulation_cell :: "nat \<Rightarrow> SubQGSimulator \<times> nat \<Rightarrow> nat \<Rightarrow> SubQGSimulator \<times> nat" where
  "runSimulation_cell r s c =
     (let this = fst s; num_knots_in_step = snd s;
          energy = energy_field this ! r ! c;
          phase = phase_field this ! r ! c
      in if detected_knot_this_step this energy phase then
           (this\<lparr> knot_map := set_cell (knot_map this) r c (knot_map this ! r ! c + 1),
                  detected_knot_base_values :=
                    detected_knot_base_values this @ (case energy of None \<Rightarrow> [] | Some e \<Rightarrow> [e]) \<rparr>,
            num_knots_in_step + 1)
         else s)"

text \<open>One time step: the state is the simulator, the draws taken and the running total.\<close>

definition runSimulation_step ::
  "RandomSource \<Rightarrow> SubQGSimulator \<times> nat \<times> nat \<Rightarrow> nat \<Rightarrow> SubQGSimulator \<times> nat \<times> nat" where
  "runSimulation_step U s t =
     (let this = fst s; draws = fst (snd s); total_knots_detected = snd (snd s);
          w = updateWaves U t (this, draws);
          p = params (fst w);
          d = foldl (\<lambda>s r. foldl (runSimulation_cell r) s [0..<nat (field_w p)])
                (fst w, 0) [0..<nat (field_h p)]
      in (fst d, snd w, total_knots_detected + snd d))"

record SimulationResult =
  result_knot_map :: KnotMap
  total_knots :: nat

definition runSimulation ::
  "RandomSource \<Rightarrow> SubQGSimulator \<times> nat \<Rightarrow> js_error + (SubQGSimulator \<times> nat) \<times> SimulationResult" where
  "runSimulation U s =
     (let this = fst s; draws = snd s; p = params this
      in case Array_grid (field_h p) (field_w p) 0 of
           Inl e \<Rightarrow> Inl e
         | Inr km \<Rightarrow>
             (let this0 = this\<lparr> knot_map := km, detected_knot_base_values := [] \<rparr>;
                  fin = foldl (runSimulation_step U) (this0, draws, 0) [0..<nat (sim_duration p)]
              in Inr ((fst fin, fst (snd fin)),
                      \<lparr> result_knot_map = knot_map (fst fin), total_knots = snd (snd fin) \<rparr>)))"

text \<open>
  The caller's sequence (App.tsx): \<open>new SubQGSimulator(params)\<close>, then \<open>runSimulation()\<close>,
  then \<open>analyzeRiemannProjection()\<close> on the same object.
\<close>

definition simulate ::
  "RandomSource \<Rightarrow> SubQGParams \<Rightarrow> js_error + (SubQGSimulator \<times> nat) \<times> SimulationResult" where
  "simulate U p =
     (case SubQGSimulator_new p of
        Inl e \<Rightarrow> Inl e
      | Inr this \<Rightarrow> runSimulation U (this, 0))"

definition zero_source :: RandomSource where
  "zero_source = (\<lambda>_. 0)"

definition sum_knot_map :: "KnotMap \<Rightarrow> nat" where
  "sum_knot_map m = sum_list (map sum_list m)"

subsection \<open>Closed forms of the simulator's loops\<close>

text \<open>
  The value \<open>updateWaves\<close> stores in cell \<open>(r, c)\<close> of a \<open>w\<close>-column field when the
  field's first draw is draw number \<open>n\<close>: cells are visited row by row and each takes
  two draws, the energy's first.
\<close>

definition wave_at ::
  "RandomSource \<Rightarrow> nat \<Rightarrow> real \<Rightarrow> real option list \<Rightarrow> real option list \<Rightarrow> real \<Rightarrow>
   nat \<Rightarrow> nat \<Rightarrow> nat \<Rightarrow> real option" where
  "wave_at U n tc xs ys noise w r c =
     wave_value tc (spatial_component (xs ! c) (ys ! r)) (U (n + 2 * (r * w + c))) noise"

text \<open>Whether cell \<open>(r, c)\<close> is a knot in the current fields, and the event it logs.\<close>

definition knot_at :: "SubQGSimulator \<Rightarrow> nat \<Rightarrow> nat \<Rightarrow> bool" where
  "knot_at this r c =
     detected_knot_this_step this (energy_field this ! r ! c) (phase_field this ! r ! c)"

definition knot_events :: "SubQGSimulator \<Rightarrow> nat \<Rightarrow> nat \<Rightarrow> real list" where
  "knot_events this r c =
     (if knot_at this r c
      then (case energy_field this ! r ! c of None \<Rightarrow> [] | Some e \<Rightarrow> [e])
      else [])"

definition grid_shape :: "'a list list \<Rightarrow> nat \<Rightarrow> nat \<Rightarrow> bool" where
  "grid_shape m h w \<longleftrightarrow> length m = h \<and> list_all (\<lambda>row. length row = w) m"

text \<open>
  The invariant of the time loop of \<open>runSimulation\<close>, on the simulator, the draws taken
  and the running total.
\<close>

definition run_inv :: "SubQGParams \<Rightarrow> SubQGSimulator \<times> nat \<times> nat \<Rightarrow> bool" where
  "run_inv p s \<longleftrightarrow>
     params (fst s) = p
     \<and> grid_shape (knot_map (fst s)) (nat (field_h p)) (nat (field_w p))
     \<and> sum_knot_map (knot_map (fst s)) = length (detected_knot_base_values (fst s))
     \<and> snd (snd s) = length (detected_knot_base_values (fst s))"

text \<open>The result of \<^const>\<open>simulate\<close> alone, as the caller destructures it.\<close>

definition simulate_result :: "RandomSource \<Rightarrow> SubQGParams \<Rightarrow> js_error + SimulationResult" where
  "simulate_result U p =
     (case simulate U p of
        Inl e \<Rightarrow> Inl e
      | Inr out \<Rightarrow> Inr (snd out))"

text \<open>
  The caller's whole sequence: the run and then the analysis of the same simulator, on an
  engine that accepts \<open>max_arguments\<close> arguments in a call.
\<close>

definition simulate_then_analyze ::
  "nat \<Rightarrow> RandomSource \<Rightarrow> SubQGParams \<Rightarrow> js_error + SimulationResult \<times> RiemannStats" where
  "simulate_then_analyze max_arguments U p =
     (case simulate U p of
        Inl e \<Rightarrow> Inl e
      | Inr out \<Rightarrow>
          (case analyzeRiemannProjection max_arguments (fst (fst out)) of
             Inl e \<Rightarrow> Inl e
           | Inr stats \<Rightarrow> Inr (snd out, stats)))"

text \<open>
  The invariant of the time loop in a run where every cell is a knot at every step:
  after \<open>k\<close> steps every entry of the map is \<open>k\<close>, and the total and the log's length
  are \<open>k\<close> times the number of cells.
\<close>

definition dense_inv :: "SubQGParams \<Rightarrow> nat \<Rightarrow> SubQGSimulator \<times> nat \<times> nat \<Rightarrow> bool" where
  "dense_inv p k s \<longleftrightarrow>
     params (fst s) = p
     \<and> omega_phase (fst s) = omega_energy (fst s)
     \<and> grid_shape (energy_field (fst s)) (nat (field_h p)) (nat (field_w p))
     \<and> grid_shape (phase_field (fst s)) (nat (field_h p)) (nat (field_w p))
     \<and> knot_map (fst s) = replicate (nat (field_h p)) (replicate (nat (field_w p)) k)
     \<and> length (detected_knot_base_values (fst s)) = nat (field_h p) * nat (field_w p) * k
     \<and> snd (snd s) = nat (field_h p) * nat (field_w p) * k"

subsection \<open>Pixel transform: the arithmetic of one pixel\<close>

text \<open>
  The file holds two versions of \<open>processImageWithSubQG\<close>. Both compute the same
  per-pixel quantities below (lines 265 to 276 and 307 to 313 of the first, 610 to 621
  and 652 to 660 of the second).
\<close>

definition waveFrequencyX :: "real \<Rightarrow> real" where
  "waveFrequencyX harmonyScore = 3 + harmonyScore * 4"

definition waveFrequencyY :: "real \<Rightarrow> real" where
  "waveFrequencyY harmonyScore = 2 + harmonyScore * 3"

definition knotPhaseInfluence :: real where
  "knotPhaseInfluence = Math_PI"

definition fieldColorModulationStrength :: "real \<Rightarrow> real" where
  "fieldColorModulationStrength harmonyScore = 15 / 100 * (1 - harmonyScore)"

definition fieldBrightnessVariationStrength :: "real \<Rightarrow> real" where
  "fieldBrightnessVariationStrength harmonyScore = 10 / 100 * (1 - harmonyScore)"

definition colorTempShift :: "real \<Rightarrow> real" where
  "colorTempShift harmonyScore = (harmonyScore - 1 / 2) * (25 / 100)"

definition saturationFactor :: "real \<Rightarrow> real" where
  "saturationFactor harmonyScore = 1 + (harmonyScore - 1 / 2) * (25 / 100)"

definition effectiveColorTempShift :: "real \<Rightarrow> real \<Rightarrow> real" where
  "effectiveColorTempShift harmonyScore fieldInfluence =
     colorTempShift harmonyScore
       * (1 + fieldInfluence * fieldColorModulationStrength harmonyScore)"

definition effectiveSaturationFactor :: "real \<Rightarrow> real \<Rightarrow> real" where
  "effectiveSaturationFactor harmonyScore fieldInfluence =
     saturationFactor harmonyScore
       * (1 + fieldInfluence * fieldColorModulationStrength harmonyScore * (1 / 2))"

definition brightnessFieldVariation :: "real \<Rightarrow> real \<Rightarrow> real" where
  "brightnessFieldVariation harmonyScore fieldInfluence =
     fieldInfluence * fieldBrightnessVariationStrength harmonyScore"

text \<open>
  The field influence of pixel \<open>(r_idx, c_idx)\<close> from its knot value and the two global
  phase offsets.
\<close>

definition fieldInfluence_at ::
  "real \<Rightarrow> real \<Rightarrow> real \<Rightarrow> nat \<Rightarrow> nat \<Rightarrow> nat \<Rightarrow> nat \<Rightarrow> real \<Rightarrow> real" where
  "fieldInfluence_at harmonyScore globalPhaseOffsetX globalPhaseOffsetY imgWidth imgHeight
       r_idx c_idx knotValue =
     (let normX = real c_idx / real imgWidth;
          normY = real r_idx / real imgHeight;
          waveX = sin (normX * waveFrequencyX harmonyScore * Math_PI * 2
                       + knotValue * knotPhaseInfluence + globalPhaseOffsetX);
          waveY = sin (normY * waveFrequencyY harmonyScore * Math_PI * 2
                       + knotValue * knotPhaseInfluence + globalPhaseOffsetY)
      in (waveX + waveY) / 2)"

text \<open>
  The brightness and contrast of the sliders, folded over the category activations
  (\<open>categoryActivations.forEach\<close>).
\<close>

definition categoryMods :: "real \<Rightarrow> real \<Rightarrow> real list \<Rightarrow> real \<times> real" where
  "categoryMods brightnessFactor contrastFactor categoryActivations =
     foldl (\<lambda>m activation.
              (fst m + (activation - 1 / 2) * (15 / 100),
               snd m * (1 + (activation - 1 / 2) * (10 / 100))))
       (brightnessFactor, contrastFactor) categoryActivations"

text \<open>
  The conversion of a number stored into a \<open>Uint8ClampedArray\<close>: clamped to
  \<open>[0, 255]\<close> and rounded to the nearest integer, ties to even.
\<close>

definition toUint8Clamp :: "real \<Rightarrow> 8 word" where
  "toUint8Clamp x =
     (if x \<le> 0 then 0
      else if 255 \<le> x then 255
      else let f = \<lfloor>x\<rfloor>
           in if real_of_int f + 1 / 2 < x then word_of_int (f + 1)
              else if x < real_of_int f + 1 / 2 then word_of_int f
              else if even f then word_of_int f else word_of_int (f + 1))"

type_synonym pixel = "8 word \<times> 8 word \<times> 8 word \<times> 8 word"

text \<open>
  The colour steps of the first version on channels in \<open>[0, 1]\<close>: temperature shift,
  saturation about the luma, brightness variation (lines 315 to 334).
\<close>

definition colorMood :: "real \<Rightarrow> real \<Rightarrow> real \<times> real \<times> real \<Rightarrow> real \<times> real \<times> real" where
  "colorMood harmonyScore fieldInfluence rgb =
     (let r = fst rgb; g = fst (snd rgb); b = snd (snd rgb);
          ects = effectiveColorTempShift harmonyScore fieldInfluence;
          esf = effectiveSaturationFactor harmonyScore fieldInfluence;
          r1 = (if ects > 0 then clamp (r + ects * (20 / 100)) 0 1
                else clamp (r + ects * (15 / 100)) 0 1);
          g1 = (if ects > 0 then clamp (g + ects * (10 / 100)) 0 1
                else clamp g 0 1);
          b1 = (if ects > 0 then clamp (b - ects * (15 / 100)) 0 1
                else clamp (b - ects * (20 / 100)) 0 1);
          luma = 299 / 1000 * r1 + 587 / 1000 * g1 + 114 / 1000 * b1;
          r2 = clamp (luma + (r1 - luma) * esf) 0 1;
          g2 = clamp (luma + (g1 - luma) * esf) 0 1;
          b2 = clamp (luma + (b1 - luma) * esf) 0 1;
          bfv = brightnessFieldVariation harmonyScore fieldInfluence
      in (clamp (r2 + bfv) 0 1, clamp (g2 + bfv) 0 1, clamp (b2 + bfv) 0 1))"

text \<open>The second version leaves green alone in the cooling branch (lines 663 to 682).\<close>

definition colorMood_v2 :: "real \<Rightarrow> real \<Rightarrow> real \<times> real \<times> real \<Rightarrow> real \<times> real \<times> real" where
  "colorMood_v2 harmonyScore fieldInfluence rgb =
     (let r = fst rgb; g = fst (snd rgb); b = snd (snd rgb);
          ects = effectiveColorTempShift harmonyScore fieldInfluence;
          esf = effectiveSaturationFactor harmonyScore fieldInfluence;
          r1 = (if ects > 0 then clamp (r + ects * (20 / 100)) 0 1
                else clamp (r + ects * (15 / 100)) 0 1);
          g1 = (if ects > 0 then clamp (g + ects * (10 / 100)) 0 1
                else g);
          b1 = (if ects > 0 then clamp (b - ects * (15 / 100)) 0 1
                else clamp (b - ects * (20 / 100)) 0 1);
          luma = 299 / 1000 * r1 + 587 / 1000 * g1 + 114 / 1000 * b1;
          r2 = clamp (luma + (r1 - luma) * esf) 0 1;
          g2 = clamp (luma + (g1 - luma) * esf) 0 1;
          b2 = clamp (luma + (b1 - luma) * esf) 0 1;
          bfv = brightnessFieldVariation harmonyScore fieldInfluence
      in (clamp (r2 + bfv) 0 1, clamp (g2 + bfv) 0 1, clamp (b2 + bfv) 0 1))"

text \<open>Base brightness and contrast about the midpoint (lines 294 to 300).\<close>

definition baseChannel :: "real \<times> real \<Rightarrow> 8 word \<Rightarrow> real" where
  "baseChannel mods byte =
     clamp ((real (unat byte) / 255 - 1 / 2) * snd mods + 1 / 2 + fst mods) 0 1"

text \<open>
  One pixel of the first version, from its four bytes to the four bytes written, given
  the pixel's field influence. The alpha byte is copied.
\<close>

definition processPixel ::
  "real list \<Rightarrow> real \<Rightarrow> real \<Rightarrow> real \<Rightarrow> real \<Rightarrow> pixel \<Rightarrow> pixel" where
  "processPixel categoryActivations brightnessFactor contrastFactor harmonyScore fieldInfluence px =
     (let mods = categoryMods brightnessFactor contrastFactor categoryActivations;
          rgb = colorMood harmonyScore fieldInfluence
                  (baseChannel mods (fst px), baseChannel mods (fst (snd px)),
                   baseChannel mods (fst (snd (snd px))))
      in (toUint8Clamp (Math_round (clamp (fst rgb * 255) 0 255)),
          toUint8Clamp (Math_round (clamp (fst (snd rgb) * 255) 0 255)),
          toUint8Clamp (Math_round (clamp (snd (snd rgb) * 255) 0 255)),
          snd (snd (snd px))))"

text \<open>The second version stores the clamped product without \<open>Math.round\<close>.\<close>

definition processPixel_v2 ::
  "real list \<Rightarrow> real \<Rightarrow> real \<Rightarrow> real \<Rightarrow> real \<Rightarrow> pixel \<Rightarrow> pixel" where
  "processPixel_v2 categoryActivations brightnessFactor contrastFactor harmonyScore fieldInfluence px =
     (let mods = categoryMods brightnessFactor contrastFactor categoryActivations;
          rgb = colorMood_v2 harmonyScore fieldInfluence
                  (baseChannel mods (fst px), baseChannel mods (fst (snd px)),
                   baseChannel mods (fst (snd (snd px))))
      in (toUint8Clamp (clamp (fst rgb * 255) 0 255),
          toUint8Clamp (clamp (fst (snd rgb) * 255) 0 255),
          toUint8Clamp (clamp (snd (snd rgb) * 255) 0 255),
          snd (snd (snd px))))"

subsection \<open>Pixel transform: buffers and the pixel loop\<close>

text \<open>
  Array buffers live in a store, by address, so that two typed arrays over one buffer
  alias. An \<open>ImageData\<close> from a canvas has its bytes in a buffer of its own, of length
  \<open>4 * width * height\<close>; the record holds the buffer's address.
\<close>

record js_heap =
  buffers :: "nat \<rightharpoonup> 8 word list"
  next_buffer :: nat

record ImageData =
  width :: nat
  height :: nat
  data :: nat

definition buffer_at :: "js_heap \<Rightarrow> nat \<Rightarrow> 8 word list" where
  "buffer_at h a = (case buffers h a of None \<Rightarrow> [] | Some bs \<Rightarrow> bs)"

text \<open>A write past the end of a typed array is ignored.\<close>

definition write_byte :: "js_heap \<Rightarrow> nat \<Rightarrow> nat \<Rightarrow> 8 word \<Rightarrow> js_heap" where
  "write_byte h a i v = h\<lparr> buffers := (buffers h)(a \<mapsto> (buffer_at h a)[i := v]) \<rparr>"

definition alloc_buffer :: "js_heap \<Rightarrow> 8 word list \<Rightarrow> js_heap \<times> nat" where
  "alloc_buffer h bs =
     (h\<lparr> buffers := (buffers h)(next_buffer h \<mapsto> bs), next_buffer := Suc (next_buffer h) \<rparr>,
      next_buffer h)"

text \<open>
  One iteration of the inner loop, for either version's pixel function \<open>px\<close>:
  \<open>resizedKnotMap[r_idx]\<close> missing raises \<open>TypeError\<close>; a missing column gives an
  undefined knot value, all three channels become NaN and are stored as 0.
\<close>

definition transform_cell ::
  "(real \<Rightarrow> pixel \<Rightarrow> pixel) \<Rightarrow> real \<Rightarrow> real \<Rightarrow> real \<Rightarrow> nat \<Rightarrow> nat \<Rightarrow> nat \<Rightarrow> nat \<Rightarrow>
   real list list \<Rightarrow> nat \<Rightarrow> js_heap \<Rightarrow> nat \<Rightarrow> js_error + js_heap" where
  "transform_cell px harmonyScore globalPhaseOffsetX globalPhaseOffsetY imgWidth imgHeight
       originalData newData resizedKnotMap r_idx h c_idx =
     (let pixelIdx = (r_idx * imgWidth + c_idx) * 4;
          orig = buffer_at h originalData;
          p = (orig ! pixelIdx, orig ! (pixelIdx + 1), orig ! (pixelIdx + 2), orig ! (pixelIdx + 3))
      in if r_idx < length resizedKnotMap then
           (let out =
                  (if c_idx < length (resizedKnotMap ! r_idx) then
                     px (fieldInfluence_at harmonyScore globalPhaseOffsetX globalPhaseOffsetY
                           imgWidth imgHeight r_idx c_idx (resizedKnotMap ! r_idx ! c_idx)) p
                   else (0, 0, 0, snd (snd (snd p))));
                h1 = write_byte h newData pixelIdx (fst out);
                h2 = write_byte h1 newData (pixelIdx + 1) (fst (snd out));
                h3 = write_byte h2 newData (pixelIdx + 2) (fst (snd (snd out)));
                h4 = write_byte h3 newData (pixelIdx + 3)
                       (buffer_at h3 originalData ! (pixelIdx + 3))
            in Inr h4)
         else Inl TypeError)"

text \<open>A loop that stops at the first exception.\<close>

fun foldM :: "('s \<Rightarrow> 'a \<Rightarrow> js_error + 's) \<Rightarrow> 's \<Rightarrow> 'a list \<Rightarrow> js_error + 's" where
  "foldM f s [] = Inr s"
| "foldM f s (x # xs) = (case f s x of Inl e \<Rightarrow> Inl e | Inr s' \<Rightarrow> foldM f s' xs)"

definition transform_loop ::
  "(real \<Rightarrow> pixel \<Rightarrow> pixel) \<Rightarrow> real \<Rightarrow> real \<Rightarrow> real \<Rightarrow> nat \<Rightarrow> nat \<Rightarrow> nat \<Rightarrow> nat \<Rightarrow>
   real list list \<Rightarrow> js_heap \<Rightarrow> js_error + js_heap" where
  "transform_loop px harmonyScore globalPhaseOffsetX globalPhaseOffsetY imgWidth imgHeight
       originalData newData resizedKnotMap h =
     foldM (\<lambda>h r_idx.
              foldM (transform_cell px harmonyScore globalPhaseOffsetX globalPhaseOffsetY
                       imgWidth imgHeight originalData newData resizedKnotMap r_idx)
                h [0..<imgWidth])
       h [0..<imgHeight]"

text \<open>
  The first version (lines 252 to 343): \<open>new Uint8ClampedArray(originalData.buffer)\<close> is a
  view on the input's own buffer, so the new image's bytes are the input's bytes.
\<close>

definition processImageWithSubQG ::
  "RandomSource \<Rightarrow> js_heap \<times> nat \<Rightarrow> ImageData \<Rightarrow> real list \<Rightarrow> real \<Rightarrow> real \<Rightarrow>
   real list list \<Rightarrow> real \<Rightarrow> js_error + (js_heap \<times> nat) \<times> ImageData" where
  "processImageWithSubQG U s originalImageData categoryActivations brightnessFactor contrastFactor
       resizedKnotMap harmonyScore =
     (let h = fst s; draws = snd s;
          imgWidth = width originalImageData;
          imgHeight = height originalImageData;
          originalData = data originalImageData;
          newImageData = \<lparr> width = imgWidth, height = imgHeight, data = originalData \<rparr>;
          globalPhaseOffsetX = U draws * Math_PI * 2;
          globalPhaseOffsetY = U (draws + 1) * Math_PI * 2
      in case transform_loop
                (processPixel categoryActivations brightnessFactor contrastFactor harmonyScore)
                harmonyScore globalPhaseOffsetX globalPhaseOffsetY imgWidth imgHeight
                originalData (data newImageData) resizedKnotMap h of
           Inl e \<Rightarrow> Inl e
         | Inr h' \<Rightarrow> Inr ((h', draws + 2), newImageData))"

text \<open>
  The second version (lines 597 to 692): \<open>originalData.slice()\<close> copies the bytes into a
  new buffer and \<open>new Uint8ClampedArray\<close> of that typed array copies them again.
\<close>

definition processImageWithSubQG_v2 ::
  "RandomSource \<Rightarrow> js_heap \<times> nat \<Rightarrow> ImageData \<Rightarrow> real list \<Rightarrow> real \<Rightarrow> real \<Rightarrow>
   real list list \<Rightarrow> real \<Rightarrow> js_error + (js_heap \<times> nat) \<times> ImageData" where
  "processImageWithSubQG_v2 U s originalImageData categoryActivations brightnessFactor contrastFactor
       resizedKnotMap harmonyScore =
     (let h = fst s; draws = snd s;
          imgWidth = width originalImageData;
          imgHeight = height originalImageData;
          originalData = data originalImageData;
          sliced = alloc_buffer h (buffer_at h originalData);
          copied = alloc_buffer (fst sliced) (buffer_at (fst sliced) (snd sliced));
          newImageData = \<lparr> width = imgWidth, height = imgHeight, data = snd copied \<rparr>;
          globalPhaseOffsetX = U draws * Math_PI * 2;
          globalPhaseOffsetY = U (draws + 1) * Math_PI * 2
      in case transform_loop
                (processPixel_v2 categoryActivations brightnessFactor contrastFactor harmonyScore)
                harmonyScore globalPhaseOffsetX globalPhaseOffsetY imgWidth imgHeight
                originalData (data newImageData) resizedKnotMap (fst copied) of
           Inl e \<Rightarrow> Inl e
         | Inr h' \<Rightarrow> Inr ((h', draws + 2), newImageData))"

text \<open>
  A well-formed input: the image's buffer is allocated and holds four bytes per pixel,
  and nothing is allocated at or beyond the next address.
\<close>

definition wf_image :: "js_heap \<Rightarrow> ImageData \<Rightarrow> bool" where
  "wf_image h img \<longleftrightarrow>
     data img < next_buffer h
     \<and> (case buffers h (data img) of
          None \<Rightarrow> False
        | Some bs \<Rightarrow> length bs = 4 * width img * height img)"

definition matching_dimensions :: "real list list \<Rightarrow> ImageData \<Rightarrow> bool" where
  "matching_dimensions m img \<longleftrightarrow> grid_shape m (height img) (width img)"

subsection \<open>resizeKnotMap\<close>













subsection \<open>The specification's statistics\<close>

text \<open>
  The population standard deviation and the range as the specification words them, to be
  compared with \<^const>\<open>calculateStdDev\<close> and \<^const>\<open>calculatePtp\<close>.
\<close>

definition spec_mean :: "real list \<Rightarrow> real" where
  "spec_mean xs = sum_list xs / real (length xs)"

definition spec_population_stddev :: "real list \<Rightarrow> real" where
  "spec_population_stddev xs =
     sqrt ((\<Sum>x\<leftarrow>xs. (x - spec_mean xs) ^ 2) / real (length xs))"

definition spec_range :: "real list \<Rightarrow> real" where
  "spec_range xs = Max (set xs) - Min (set xs)"

subsection \<open>Concrete inputs\<close>

text \<open>Array lengths the \<open>Array\<close> constructor accepts.\<close>

definition valid_length :: "int \<Rightarrow> bool" where
  "valid_length n \<longleftrightarrow> 0 \<le> n \<and> n \<le> 4294967295"

text \<open>The default parameters of constants.ts on a 4 by 4 grid, with no time step.\<close>

definition cfg_no_duration :: SubQGParams where
  "cfg_no_duration = \<lparr> sim_duration = 0, noise_factor = 4 / 100, threshold_s = 75 / 100,
       decimal_precision = 3, f_energy = 15 / 100, f_phase = 155 / 1000,
       re_s_scaling_c = 1 / 10, field_w = 4, field_h = 4 \<rparr>"

text \<open>A simulator whose event log is \<open>[0.1, 0.1, 0.1]\<close>, with scaling constant \<open>1.0\<close>.\<close>

definition sim3 :: SubQGSimulator where
  "sim3 = \<lparr> params = \<lparr> sim_duration = 1, noise_factor = 0, threshold_s = 0, decimal_precision = 3,
       f_energy = 15/100, f_phase = 155/1000, re_s_scaling_c = 1, field_w = 4, field_h = 4 \<rparr>,
     energy_field = [], phase_field = [], knot_map = [],
     detected_knot_base_values = [1/10, 1/10, 1/10],
     rounding_factor = 1000, omega_energy = 0, omega_phase = 0 \<rparr>"

text \<open>
  The scenario of the specification: a 4 by 4 grid, one time step, no noise, threshold 0,
  three decimal places, with a random source that always returns 0.
\<close>

definition cfg_scenario :: SubQGParams where
  "cfg_scenario = \<lparr> sim_duration = 1, noise_factor = 0, threshold_s = 0,
       decimal_precision = 3, f_energy = 15 / 100, f_phase = 155 / 1000,
       re_s_scaling_c = 1 / 10, field_w = 4, field_h = 4 \<rparr>"

text \<open>
  The scenario's field value in cell \<open>(r, c)\<close>: the time components are \<open>sin 0 = 0\<close>
  and the grid coordinates are the multiples of \<open>2 * Math.PI / 3\<close> that
  \<open>linspace(0, 2 * Math.PI, 4)\<close> returns.
\<close>

definition scenario_value :: "nat \<Rightarrow> nat \<Rightarrow> real" where
  "scenario_value r c =
     \<bar>sin (2 * Math_PI / 3 * real c) * cos (2 * Math_PI / 3 * real r)\<bar> / 2"

definition scenario_field :: "real option list list" where
  "scenario_field = map (\<lambda>r. map (\<lambda>c. Some (scenario_value r c)) [0..<4]) [0..<4]"

definition scenario_knots :: KnotMap where
  "scenario_knots =
     map (\<lambda>r. map (\<lambda>c. if 0 < scenario_value r c then 1 else 0) [0..<4]) [0..<4]"

definition scenario_log :: "real list" where
  "scenario_log =
     concat (map (\<lambda>r. concat (map (\<lambda>c. if 0 < scenario_value r c then [scenario_value r c] else [])
                                   [0..<4])) [0..<4])"

text \<open>
  The scenario's simulator as constructed, after \<open>updateWaves\<close> at \<open>t = 0\<close>, and after
  the run.
\<close>

definition scenario_start :: SubQGSimulator where
  "scenario_start = \<lparr> params = cfg_scenario,
     energy_field = replicate 4 (replicate 4 (Some 0)),
     phase_field = replicate 4 (replicate 4 (Some 0)),
     knot_map = replicate 4 (replicate 4 0),
     detected_knot_base_values = [],
     rounding_factor = 10 powi 3,
     omega_energy = 15 / 100 * 2 * Math_PI,
     omega_phase = 155 / 1000 * 2 * Math_PI \<rparr>"

definition scenario_waves :: SubQGSimulator where
  "scenario_waves = scenario_start\<lparr> energy_field := scenario_field, phase_field := scenario_field \<rparr>"

definition scenario_final :: SubQGSimulator where
  "scenario_final =
     scenario_waves\<lparr> knot_map := scenario_knots, detected_knot_base_values := scenario_log \<rparr>"

text \<open>
  A run that fills the log: the largest grid the application builds, 128 by 128, the
  longest duration of its slider, the default noise, precision and scaling, equal
  frequencies and the threshold \<open>0.01\<close>, with a random source that always returns
  \<open>1/2\<close>. Energy and phase are then equal and at least \<open>0.02\<close> in every cell at
  every step.
\<close>

definition cfg_dense :: SubQGParams where
  "cfg_dense = \<lparr> sim_duration = 100, noise_factor = 4 / 100, threshold_s = 1 / 100,
       decimal_precision = 3, f_energy = 15 / 100, f_phase = 15 / 100,
       re_s_scaling_c = 1 / 10, field_w = 128, field_h = 128 \<rparr>"

definition half_source :: RandomSource where
  "half_source = (\<lambda>_. 1 / 2)"

text \<open>A one-pixel grey image, alone in its heap.\<close>

definition heap1 :: js_heap where
  "heap1 = \<lparr> buffers = [0 \<mapsto> [100, 100, 100, 255]], next_buffer = 1 \<rparr>"

definition image1 :: ImageData where
  "image1 = \<lparr> width = 1, height = 1, data = 0 \<rparr>"

text \<open>
  The heap after the second version's two copies of that image, and after its loop.
\<close>

definition heap1_copied :: js_heap where
  "heap1_copied = \<lparr> buffers = [0 \<mapsto> [100, 100, 100, 255], 1 \<mapsto> [100, 100, 100, 255],
                                2 \<mapsto> [100, 100, 100, 255]], next_buffer = 3 \<rparr>"

definition heap1_transformed :: js_heap where
  "heap1_transformed = \<lparr> buffers = [0 \<mapsto> [100, 100, 100, 255], 1 \<mapsto> [100, 100, 100, 255],
                                     2 \<mapsto> [107, 103, 94, 255]], next_buffer = 3 \<rparr>"

text \<open>The loop invariant of the pixel loop when it writes to a buffer of its own.\<close>

definition frame_inv :: "js_heap \<Rightarrow> nat \<Rightarrow> nat \<Rightarrow> js_heap \<Rightarrow> bool" where
  "frame_inv h0 orig new h \<longleftrightarrow>
     next_buffer h = next_buffer h0
     \<and> (\<forall>a. a \<noteq> new \<longrightarrow> buffers h a = buffers h0 a)
     \<and> length (buffer_at h new) = length (buffer_at h0 new)
     \<and> (\<forall>i < length (buffer_at h0 new). i mod 4 = 3 \<longrightarrow> buffer_at h new ! i = buffer_at h0 orig ! i)"

section \<open>Properties of the projection analysis\<close>

subsection \<open>The helpers compute the specification's statistics\<close>

lemma foldl_add_sum_list:
  "foldl (\<lambda>sum val. sum + f val) a xs = a + sum_list (map f xs)" for a :: real
  by (induction xs arbitrary: a) simp_all

lemma foldl_max_Max: "foldl max x xs = Max (set (x # xs))" for x :: real
proof (induction xs arbitrary: x)
  case Nil
  show ?case by simp
next
  case (Cons y ys)
  have "foldl max x (y # ys) = Max (set (max x y # ys))"
    using Cons.IH [of "max x y"] by simp
  also have "\<dots> = Max (set (x # y # ys))"
    by (cases ys) (simp_all add: max.assoc)
  finally show ?case .
qed

lemma foldl_min_Min: "foldl min x xs = Min (set (x # xs))" for x :: real
proof (induction xs arbitrary: x)
  case Nil
  show ?case by simp
next
  case (Cons y ys)
  have "foldl min x (y # ys) = Min (set (min x y # ys))"
    using Cons.IH [of "min x y"] by simp
  also have "\<dots> = Min (set (x # y # ys))"
    by (cases ys) (simp_all add: min.assoc)
  finally show ?case .
qed

text \<open>
  Within the engine's limit \<open>calculatePtp\<close> is the range; beyond it, it raises.
\<close>

lemma calculatePtp_spec_range:
  "xs \<noteq> [] \<Longrightarrow> length xs \<le> max_arguments \<Longrightarrow> calculatePtp max_arguments xs = Inr (spec_range xs)"
  by (cases xs)
    (simp_all add: calculatePtp_def spec_range_def foldl_max_Max foldl_min_Min del: set_simps)

lemma calculatePtp_raises:
  "max_arguments < length xs \<Longrightarrow> calculatePtp max_arguments xs = Inl RangeError"
  by (cases xs) (simp_all add: calculatePtp_def)

lemma calculateMean_spec_mean: "xs \<noteq> [] \<Longrightarrow> calculateMean xs = spec_mean xs"
  using foldl_add_sum_list [of "\<lambda>v. v" 0 xs]
  by (simp add: calculateMean_def spec_mean_def)

lemma calculateStdDev_spec:
  assumes "1 < length xs"
  shows "calculateStdDev xs = spec_population_stddev xs"
proof -
  from assms have "xs \<noteq> []" by auto
  then have m: "calculateMean xs = spec_mean xs" by (rule calculateMean_spec_mean)
  show ?thesis
    using assms foldl_add_sum_list [of "\<lambda>v. (v - spec_mean xs) ^ 2" 0 xs]
    by (simp add: calculateStdDev_def spec_population_stddev_def Let_def m)
qed

lemma std_dev_of_cases:
  "std_dev_of max_arguments xs =
     (if 1 < length xs \<and> max_arguments < length xs then Inl RangeError
      else Inr (if 1 < length xs \<and> 0 < spec_range xs then spec_population_stddev xs else 1))"
proof (cases "1 < length xs")
  case False
  then show ?thesis by (simp add: std_dev_of_def)
next
  case long: True
  then have ne: "xs \<noteq> []" by auto
  show ?thesis
  proof (cases "max_arguments < length xs")
    case True
    with long show ?thesis
      by (simp add: std_dev_of_def calculatePtp_raises)
  next
    case False
    then have "length xs \<le> max_arguments" by simp
    with long ne show ?thesis
      by (simp add: std_dev_of_def calculatePtp_spec_range calculateStdDev_spec)
  qed
qed

subsection \<open>The analysis of an event log\<close>

lemma projected_re_s_values_eq:
  "projected_re_s_values this =
     map (\<lambda>raw. raw * 5 * re_s_scaling_c (params this)) (detected_knot_base_values this)"
  by (simp add: projected_re_s_values_def internal_prescale_factor_def)

lemma clamp_range: "lo \<le> hi \<Longrightarrow> lo \<le> clamp v lo hi \<and> clamp v lo hi \<le> hi"
  by (simp add: clamp_def)

text \<open>
  The analysis of a non-empty log raises exactly when the log has more than one element
  and more elements than the engine accepts as arguments.
\<close>

lemma analyze_raises_iff:
  assumes "detected_knot_base_values this \<noteq> []"
  shows "analyzeRiemannProjection max_arguments this = Inl RangeError \<longleftrightarrow>
           1 < length (detected_knot_base_values this)
           \<and> max_arguments < length (detected_knot_base_values this)"
    and "(\<exists>stats. analyzeRiemannProjection max_arguments this = Inr stats) \<longleftrightarrow>
           \<not> (1 < length (detected_knot_base_values this)
              \<and> max_arguments < length (detected_knot_base_values this))"
  using assms
  by (auto simp add: analyzeRiemannProjection_def Let_def std_dev_of_cases
      projected_re_s_values_eq split: if_splits)

text \<open>
  When the analysis of a non-empty log returns, every field of the record is the
  specification's statistic of the projected values \<open>raw * 5 * c\<close>.
\<close>

lemma analyze_returns:
  assumes "detected_knot_base_values this \<noteq> []"
    and "analyzeRiemannProjection max_arguments this = Inr stats"
  defines "projected \<equiv>
     map (\<lambda>raw. raw * 5 * re_s_scaling_c (params this)) (detected_knot_base_values this)"
  shows "mean_re_s stats = spec_mean projected"
    and "median_re_s stats = calculateMedian projected"
    and "std_dev_re_s stats =
           (if 1 < length projected \<and> 0 < spec_range projected
            then spec_population_stddev projected else 1)"
    and "count_near_0_5 stats =
           length (filter (\<lambda>val. 45 / 100 \<le> val \<and> val \<le> 55 / 100) projected)"
    and "total_projected_knots stats = length (detected_knot_base_values this)"
    and "harmony_score stats =
           clamp (6 / 10 * (1 - min 1 (\<bar>mean_re_s stats - 1 / 2\<bar> / (25 / 100)))
                  + 4 / 10 * (1 - min 1 (std_dev_re_s stats / (15 / 100)))) 0 1"
    and "internal_prescale_factor_used stats = 5"
proof -
  have ne: "projected \<noteq> []"
    using assms(1) by (simp add: projected_def)
  have p: "projected_re_s_values this = projected"
    by (simp add: projected_re_s_values_eq projected_def)
  from assms(1,2) obtain sd where sd: "std_dev_of max_arguments projected = Inr sd"
    and stats: "stats =
      \<lparr> mean_re_s = calculateMean projected, median_re_s = calculateMedian projected,
        std_dev_re_s = sd,
        count_near_0_5 = length (filter (\<lambda>val. val \<ge> target_re_s - interval_radius
                                            \<and> val \<le> target_re_s + interval_radius) projected),
        total_projected_knots = length projected,
        harmony_score = clamp ((1 - min 1 (\<bar>calculateMean projected - target_re_s\<bar>
                                            / (target_re_s * (1 / 2)))) * (6 / 10)
                               + (1 - min 1 (sd / (15 / 100))) * (4 / 10)) 0 1,
        internal_prescale_factor_used = internal_prescale_factor,
        knot_map_visual_uri = None \<rparr>"
    by (auto simp add: analyzeRiemannProjection_def Let_def p split: sum.splits)
  from sd have sdv: "sd = (if 1 < length projected \<and> 0 < spec_range projected
            then spec_population_stddev projected else 1)"
    by (auto simp add: std_dev_of_cases split: if_splits)
  show "mean_re_s stats = spec_mean projected"
    using ne by (simp add: stats calculateMean_spec_mean)
  show "median_re_s stats = calculateMedian projected"
    by (simp add: stats)
  show "std_dev_re_s stats =
           (if 1 < length projected \<and> 0 < spec_range projected
            then spec_population_stddev projected else 1)"
    using sdv by (simp add: stats)
  show "count_near_0_5 stats =
           length (filter (\<lambda>val. 45 / 100 \<le> val \<and> val \<le> 55 / 100) projected)"
    by (simp add: stats target_re_s_def interval_radius_def)
  show "total_projected_knots stats = length (detected_knot_base_values this)"
    by (simp add: stats projected_def)
  show "harmony_score stats =
           clamp (6 / 10 * (1 - min 1 (\<bar>mean_re_s stats - 1 / 2\<bar> / (25 / 100)))
                  + 4 / 10 * (1 - min 1 (std_dev_re_s stats / (15 / 100)))) 0 1"
    by (simp add: stats target_re_s_def mult.commute)
  show "internal_prescale_factor_used stats = 5"
    by (simp add: stats internal_prescale_factor_def)
qed

text \<open>
  Claim C5. With an empty knot event log the analysis returns the fixed degenerate
  record, on every engine: mean 0, median 0, standard deviation 1, count near the target
  0, total event count 0, harmony score 0 and prescale constant 0 (and no visual URI).
\<close>

theorem analyze_empty_log:
  "detected_knot_base_values this = [] \<Longrightarrow>
   analyzeRiemannProjection max_arguments this =
     Inr \<lparr> mean_re_s = 0, median_re_s = 0, std_dev_re_s = 1, count_near_0_5 = 0,
           total_projected_knots = 0, harmony_score = 0, internal_prescale_factor_used = 0,
           knot_map_visual_uri = None \<rparr>"
  by (simp add: analyzeRiemannProjection_def)

theorem analyze_empty_log_witness:
  "detected_knot_base_values (sim3\<lparr> detected_knot_base_values := [] \<rparr>) = []
   \<and> analyzeRiemannProjection 500000 (sim3\<lparr> detected_knot_base_values := [] \<rparr>) =
     Inr \<lparr> mean_re_s = 0, median_re_s = 0, std_dev_re_s = 1, count_near_0_5 = 0,
           total_projected_knots = 0, harmony_score = 0, internal_prescale_factor_used = 0,
           knot_map_visual_uri = None \<rparr>"
proof -
  have e: "detected_knot_base_values (sim3\<lparr> detected_knot_base_values := [] \<rparr>) = []"
    by simp
  show ?thesis
    using e analyze_empty_log [OF e] by (rule conjI)
qed

section \<open>Properties of the simulator\<close>

lemma fill_prefix_step:
  assumes "j < length row"
  shows "(map f [0..<j] @ drop j row)[j := f j] = map f [0..<Suc j] @ drop (Suc j) row"
proof -
  have "drop j row = row ! j # drop (Suc j) row"
    using assms by (simp add: Cons_nth_drop_Suc)
  then show ?thesis
    by (simp add: list_update_append)
qed

lemma nth_fill_prefix:
  "j < length row \<Longrightarrow> (map f [0..<j] @ drop j row) ! j = row ! j"
  by (simp add: nth_append)

lemma updateWaves_row_prefix:
  assumes "r < length (energy_field this)" "j \<le> length (energy_field this ! r)"
    and "r < length (phase_field this)" "j \<le> length (phase_field this ! r)"
  shows "foldl (updateWaves_cell U te tp xs ys r) (this, n) [0..<j] =
    (this\<lparr> energy_field := (energy_field this)[r :=
               map (\<lambda>c. wave_value te (spatial_component (xs ! c) (ys ! r)) (U (n + 2 * c))
                          (noise_factor (params this))) [0..<j]
               @ drop j (energy_field this ! r)],
            phase_field := (phase_field this)[r :=
               map (\<lambda>c. wave_value tp (spatial_component (xs ! c) (ys ! r)) (U (n + 2 * c + 1))
                          (noise_factor (params this))) [0..<j]
               @ drop j (phase_field this ! r)] \<rparr>,
     n + 2 * j)"
  using assms
proof (induction j)
  case 0
  then show ?case by simp
next
  case (Suc j)
  then have IH: "foldl (updateWaves_cell U te tp xs ys r) (this, n) [0..<j] =
    (this\<lparr> energy_field := (energy_field this)[r :=
               map (\<lambda>c. wave_value te (spatial_component (xs ! c) (ys ! r)) (U (n + 2 * c))
                          (noise_factor (params this))) [0..<j]
               @ drop j (energy_field this ! r)],
            phase_field := (phase_field this)[r :=
               map (\<lambda>c. wave_value tp (spatial_component (xs ! c) (ys ! r)) (U (n + 2 * c + 1))
                          (noise_factor (params this))) [0..<j]
               @ drop j (phase_field this ! r)] \<rparr>,
     n + 2 * j)"
    by simp
  from Suc.prems have lt: "j < length (energy_field this ! r)" "j < length (phase_field this ! r)"
    by simp_all
  have step: "foldl (updateWaves_cell U te tp xs ys r) (this, n) [0..<Suc j] =
      updateWaves_cell U te tp xs ys r (foldl (updateWaves_cell U te tp xs ys r) (this, n) [0..<j]) j"
    by simp
  show ?case
    unfolding step IH using Suc.prems(1,3)
    by (simp add: updateWaves_cell_def Let_def set_cell_def
        fill_prefix_step [OF lt(1), symmetric] fill_prefix_step [OF lt(2), symmetric] del: upt_Suc)
qed


lemma grid_shape_nth: "grid_shape m h w \<Longrightarrow> r < h \<Longrightarrow> length (m ! r) = w"
  by (simp add: grid_shape_def list_all_length)

lemma updateWaves_rows_prefix:
  assumes "grid_shape (energy_field this) h w" "grid_shape (phase_field this) h w" "k \<le> h"
  shows "foldl (\<lambda>s r. foldl (updateWaves_cell U te tp xs ys r) s [0..<w]) (this, n) [0..<k] =
    (this\<lparr> energy_field :=
              map (\<lambda>r. map (wave_at U n te xs ys (noise_factor (params this)) w r) [0..<w]) [0..<k]
              @ drop k (energy_field this),
            phase_field :=
              map (\<lambda>r. map (wave_at U (Suc n) tp xs ys (noise_factor (params this)) w r) [0..<w]) [0..<k]
              @ drop k (phase_field this) \<rparr>,
     n + 2 * (k * w))"
  using assms(3)
proof (induction k)
  case 0
  then show ?case by simp
next
  case (Suc k)
  let ?E = "\<lambda>r. map (wave_at U n te xs ys (noise_factor (params this)) w r) [0..<w]"
  let ?P = "\<lambda>r. map (wave_at U (Suc n) tp xs ys (noise_factor (params this)) w r) [0..<w]"
  let ?s0 = "this\<lparr> energy_field := map ?E [0..<k] @ drop k (energy_field this),
                       phase_field := map ?P [0..<k] @ drop k (phase_field this) \<rparr>"
  from Suc.prems have k: "k < h" by simp
  have len: "length (energy_field this) = h" "length (phase_field this) = h"
    using assms by (simp_all add: grid_shape_def)
  have w: "length (energy_field this ! k) = w" "length (phase_field this ! k) = w"
    using assms k by (simp_all add: grid_shape_nth)
  have IH: "foldl (\<lambda>s r. foldl (updateWaves_cell U te tp xs ys r) s [0..<w]) (this, n) [0..<k] =
      (?s0, n + 2 * (k * w))"
    using Suc by simp
  have step: "foldl (\<lambda>s r. foldl (updateWaves_cell U te tp xs ys r) s [0..<w]) (this, n) [0..<Suc k] =
      foldl (updateWaves_cell U te tp xs ys k)
        (foldl (\<lambda>s r. foldl (updateWaves_cell U te tp xs ys r) s [0..<w]) (this, n) [0..<k]) [0..<w]"
    by simp
  have nth_k: "energy_field ?s0 ! k = energy_field this ! k" "phase_field ?s0 ! k = phase_field this ! k"
    using k len by (simp_all add: nth_append)
  have r0: "foldl (updateWaves_cell U te tp xs ys k) (?s0, n + 2 * (k * w)) [0..<w] =
      (?s0\<lparr> energy_field := (energy_field ?s0)[k :=
                 map (\<lambda>c. wave_value te (spatial_component (xs ! c) (ys ! k))
                            (U (n + 2 * (k * w) + 2 * c)) (noise_factor (params ?s0))) [0..<w]
                 @ drop w (energy_field ?s0 ! k)],
             phase_field := (phase_field ?s0)[k :=
                 map (\<lambda>c. wave_value tp (spatial_component (xs ! c) (ys ! k))
                            (U (n + 2 * (k * w) + 2 * c + 1)) (noise_factor (params ?s0))) [0..<w]
                 @ drop w (phase_field ?s0 ! k)] \<rparr>,
       n + 2 * (k * w) + 2 * w)"
    by (rule updateWaves_row_prefix) (use k len w nth_k in simp_all)
  have Ek: "map (\<lambda>c. wave_value te (spatial_component (xs ! c) (ys ! k))
                            (U (n + 2 * (k * w) + 2 * c)) (noise_factor (params ?s0))) [0..<w] = ?E k"
    by (simp add: wave_at_def algebra_simps)
  have Pk: "map (\<lambda>c. wave_value tp (spatial_component (xs ! c) (ys ! k))
                            (U (n + 2 * (k * w) + 2 * c + 1)) (noise_factor (params ?s0))) [0..<w] = ?P k"
    by (simp add: wave_at_def algebra_simps)
  have row: "foldl (updateWaves_cell U te tp xs ys k) (?s0, n + 2 * (k * w)) [0..<w] =
      (?s0\<lparr> energy_field := (energy_field ?s0)[k := ?E k],
               phase_field := (phase_field ?s0)[k := ?P k] \<rparr>,
       n + 2 * (k * w) + 2 * w)"
    unfolding r0 Ek Pk using w nth_k by simp
  have e: "(map ?E [0..<k] @ drop k (energy_field this))[k := ?E k] =
           map ?E [0..<Suc k] @ drop (Suc k) (energy_field this)"
    using fill_prefix_step [of k "energy_field this" ?E] k len by simp
  have p: "(map ?P [0..<k] @ drop k (phase_field this))[k := ?P k] =
           map ?P [0..<Suc k] @ drop (Suc k) (phase_field this)"
    using fill_prefix_step [of k "phase_field this" ?P] k len by simp
  show ?case
    unfolding step IH row using k len w
    by (simp add: nth_append e p del: upt_Suc)
qed


lemma updateWaves_closed:
  fixes this :: SubQGSimulator and U :: RandomSource and t n :: nat
  defines "h \<equiv> nat (field_h (params this))" and "w \<equiv> nat (field_w (params this))"
  assumes "grid_shape (energy_field this) h w" "grid_shape (phase_field this) h w"
  shows "updateWaves U t (this, n) =
    (this\<lparr> energy_field :=
              map (\<lambda>r. map (wave_at U n
                  (sin (omega_energy this * real t / real_of_int (sim_duration (params this))))
                  (linspace 0 (2 * Math_PI) (field_w (params this)))
                  (linspace 0 (2 * Math_PI) (field_h (params this)))
                  (noise_factor (params this)) w r) [0..<w]) [0..<h],
            phase_field :=
              map (\<lambda>r. map (wave_at U (Suc n)
                  (sin (omega_phase this * real t / real_of_int (sim_duration (params this))))
                  (linspace 0 (2 * Math_PI) (field_w (params this)))
                  (linspace 0 (2 * Math_PI) (field_h (params this)))
                  (noise_factor (params this)) w r) [0..<w]) [0..<h] \<rparr>,
     n + 2 * (h * w))"
proof -
  have len: "length (energy_field this) = h" "length (phase_field this) = h"
    using assms by (simp_all add: grid_shape_def)
  show ?thesis
    unfolding updateWaves_def Let_def fst_conv h_def [symmetric] w_def [symmetric]
    by (subst updateWaves_rows_prefix [OF assms(3,4) order_refl]) (simp add: len)
qed

lemma detected_knot_frame [simp]:
  "detected_knot_this_step (this\<lparr> knot_map := km, detected_knot_base_values := lg \<rparr>) e p =
   detected_knot_this_step this e p"
  by (simp add: detected_knot_this_step_def Let_def split: option.splits)

lemma knot_at_frame [simp]:
  "knot_at (this\<lparr> knot_map := km, detected_knot_base_values := lg \<rparr>) = knot_at this"
  by (simp add: knot_at_def fun_eq_iff)

lemma knot_events_frame [simp]:
  "knot_events (this\<lparr> knot_map := km, detected_knot_base_values := lg \<rparr>) = knot_events this"
  by (simp add: knot_events_def fun_eq_iff)

lemma length_knot_events: "length (knot_events this r c) = (if knot_at this r c then 1 else 0)"
  by (auto simp add: knot_events_def knot_at_def detected_knot_this_step_def Let_def split: option.splits)

lemma runSimulation_row_prefix:
  assumes "r < length (knot_map this)" "j \<le> length (knot_map this ! r)"
  shows "foldl (runSimulation_cell r) (this, num) [0..<j] =
    (this\<lparr> knot_map := (knot_map this)[r :=
               map (\<lambda>c. knot_map this ! r ! c + (if knot_at this r c then 1 else 0)) [0..<j]
               @ drop j (knot_map this ! r)],
            detected_knot_base_values :=
               detected_knot_base_values this @ concat (map (knot_events this r) [0..<j]) \<rparr>,
     num + length (filter (knot_at this r) [0..<j]))"
  using assms(2)
proof (induction j)
  case 0
  then show ?case by simp
next
  case (Suc j)
  let ?f = "\<lambda>c. knot_map this ! r ! c + (if knot_at this r c then 1 else 0)"
  let ?s0 = "this\<lparr> knot_map := (knot_map this)[r := map ?f [0..<j] @ drop j (knot_map this ! r)],
            detected_knot_base_values :=
               detected_knot_base_values this @ concat (map (knot_events this r) [0..<j]) \<rparr>"
  from Suc.prems have lt: "j < length (knot_map this ! r)" by simp
  have IH: "foldl (runSimulation_cell r) (this, num) [0..<j] =
      (?s0, num + length (filter (knot_at this r) [0..<j]))"
    using Suc by simp
  have step: "foldl (runSimulation_cell r) (this, num) [0..<Suc j] =
      runSimulation_cell r (foldl (runSimulation_cell r) (this, num) [0..<j]) j"
    by simp
  have fill: "(map ?f [0..<j] @ drop j (knot_map this ! r))[j := ?f j] =
      map ?f [0..<Suc j] @ drop (Suc j) (knot_map this ! r)"
    using fill_prefix_step [OF lt, of ?f] .
  have at_j: "(map ?f [0..<j] @ drop j (knot_map this ! r)) ! j = knot_map this ! r ! j"
    using nth_fill_prefix [OF lt] .
  have cc: "concat (map (knot_events this r) [0..<Suc j]) =
      concat (map (knot_events this r) [0..<j]) @ knot_events this r j"
    by simp
  have ff: "length (filter (knot_at this r) [0..<Suc j]) =
      length (filter (knot_at this r) [0..<j]) + (if knot_at this r j then 1 else 0)"
    by simp
  show ?case
  proof (cases "knot_at this r j")
    case True
    have det: "detected_knot_this_step ?s0 (energy_field this ! r ! j) (phase_field this ! r ! j)"
      using True by (simp add: knot_at_def)
    have ev: "knot_events this r j =
        (case energy_field this ! r ! j of None \<Rightarrow> [] | Some e \<Rightarrow> [e])"
      using True by (simp add: knot_events_def)
    show ?thesis
      unfolding step IH using assms(1) True det fill
      by (simp add: runSimulation_cell_def Let_def set_cell_def at_j ev cc ff del: upt_Suc)
  next
    case False
    have det: "\<not> detected_knot_this_step ?s0 (energy_field this ! r ! j) (phase_field this ! r ! j)"
      using False by (simp add: knot_at_def)
    have same: "map ?f [0..<j] @ drop j (knot_map this ! r) =
        map ?f [0..<Suc j] @ drop (Suc j) (knot_map this ! r)"
    proof -
      let ?A = "map ?f [0..<j] @ drop j (knot_map this ! r)"
      have "?A = ?A[j := ?A ! j]" by simp
      also have "?A ! j = ?f j" using at_j False by simp
      finally show ?thesis using fill by simp
    qed
    have ev: "knot_events this r j = []"
      using False by (simp add: knot_events_def)
    show ?thesis
      unfolding step IH using assms(1) False det
      by (simp add: runSimulation_cell_def Let_def same ev cc ff del: upt_Suc)
  qed
qed


lemma runSimulation_rows_prefix:
  assumes "grid_shape (knot_map this) h w" "k \<le> h"
  shows "foldl (\<lambda>s r. foldl (runSimulation_cell r) s [0..<w]) (this, num) [0..<k] =
    (this\<lparr> knot_map :=
              map (\<lambda>r. map (\<lambda>c. knot_map this ! r ! c + (if knot_at this r c then 1 else 0)) [0..<w])
                [0..<k]
              @ drop k (knot_map this),
            detected_knot_base_values :=
              detected_knot_base_values this
              @ concat (map (\<lambda>r. concat (map (knot_events this r) [0..<w])) [0..<k]) \<rparr>,
     num + (\<Sum>r\<leftarrow>[0..<k]. length (filter (knot_at this r) [0..<w])))"
  using assms(2)
proof (induction k)
  case 0
  then show ?case by simp
next
  case (Suc k)
  let ?K = "\<lambda>r. map (\<lambda>c. knot_map this ! r ! c + (if knot_at this r c then 1 else 0)) [0..<w]"
  let ?L = "\<lambda>r. concat (map (knot_events this r) [0..<w])"
  let ?N = "\<lambda>r. length (filter (knot_at this r) [0..<w])"
  let ?s0 = "this\<lparr> knot_map := map ?K [0..<k] @ drop k (knot_map this),
            detected_knot_base_values := detected_knot_base_values this @ concat (map ?L [0..<k]) \<rparr>"
  let ?n0 = "num + (\<Sum>r\<leftarrow>[0..<k]. ?N r)"
  from Suc.prems have k: "k < h" by simp
  have len: "length (knot_map this) = h"
    using assms by (simp add: grid_shape_def)
  have w: "length (knot_map this ! k) = w"
    using assms k by (simp add: grid_shape_nth)
  have IH: "foldl (\<lambda>s r. foldl (runSimulation_cell r) s [0..<w]) (this, num) [0..<k] = (?s0, ?n0)"
    using Suc by simp
  have step: "foldl (\<lambda>s r. foldl (runSimulation_cell r) s [0..<w]) (this, num) [0..<Suc k] =
      foldl (runSimulation_cell k)
        (foldl (\<lambda>s r. foldl (runSimulation_cell r) s [0..<w]) (this, num) [0..<k]) [0..<w]"
    by simp
  have nth_k: "knot_map ?s0 ! k = knot_map this ! k"
    using k len by (simp add: nth_append)
  have r0: "foldl (runSimulation_cell k) (?s0, ?n0) [0..<w] =
    (?s0\<lparr> knot_map := (knot_map ?s0)[k :=
               map (\<lambda>c. knot_map ?s0 ! k ! c + (if knot_at ?s0 k c then 1 else 0)) [0..<w]
               @ drop w (knot_map ?s0 ! k)],
            detected_knot_base_values :=
               detected_knot_base_values ?s0 @ concat (map (knot_events ?s0 k) [0..<w]) \<rparr>,
     ?n0 + length (filter (knot_at ?s0 k) [0..<w]))"
    by (rule runSimulation_row_prefix) (use k len w nth_k in simp_all)
  have Kk: "map (\<lambda>c. knot_map ?s0 ! k ! c + (if knot_at ?s0 k c then 1 else 0)) [0..<w] = ?K k"
    unfolding nth_k by simp
  have Lk: "concat (map (knot_events ?s0 k) [0..<w]) = ?L k"
    by simp
  have Nk: "length (filter (knot_at ?s0 k) [0..<w]) = ?N k"
    by simp
  have row: "foldl (runSimulation_cell k) (?s0, ?n0) [0..<w] =
    (?s0\<lparr> knot_map := (knot_map ?s0)[k := ?K k],
            detected_knot_base_values := detected_knot_base_values ?s0 @ ?L k \<rparr>,
     ?n0 + ?N k)"
    unfolding r0 Kk Lk Nk using w nth_k by simp
  have e: "(map ?K [0..<k] @ drop k (knot_map this))[k := ?K k] =
           map ?K [0..<Suc k] @ drop (Suc k) (knot_map this)"
    using fill_prefix_step [of k "knot_map this" ?K] k len by simp
  have cc: "concat (map ?L [0..<Suc k]) = concat (map ?L [0..<k]) @ ?L k"
    by simp
  have ss: "(\<Sum>r\<leftarrow>[0..<Suc k]. ?N r) = (\<Sum>r\<leftarrow>[0..<k]. ?N r) + ?N k"
    by simp
  show ?case
    unfolding step IH row cc ss by (simp add: e del: upt_Suc)
qed

lemma foldl_invariant:
  "P s \<Longrightarrow> (\<And>s x. P s \<Longrightarrow> P (f s x)) \<Longrightarrow> P (foldl f s xs)"
  by (induction xs arbitrary: s) simp_all

lemma updateWaves_frame:
  "params (fst (updateWaves U t s)) = params (fst s)
   \<and> knot_map (fst (updateWaves U t s)) = knot_map (fst s)
   \<and> detected_knot_base_values (fst (updateWaves U t s)) = detected_knot_base_values (fst s)
   \<and> rounding_factor (fst (updateWaves U t s)) = rounding_factor (fst s)"
proof -
  let ?P = "\<lambda>s'. params (fst s') = params (fst s)
   \<and> knot_map (fst s') = knot_map (fst s)
   \<and> detected_knot_base_values (fst s') = detected_knot_base_values (fst s)
   \<and> rounding_factor (fst s') = rounding_factor (fst s)"
  have cell: "?P (updateWaves_cell U te tp xs ys r s' c)" if "?P s'" for te tp xs ys r s' c
    using that by (simp add: updateWaves_cell_def Let_def)
  have row: "?P (foldl (updateWaves_cell U te tp xs ys r) s' cs)" if "?P s'" for te tp xs ys r s' cs
    using that cell by (rule foldl_invariant)
  have init: "?P s" by simp
  show ?thesis
    unfolding updateWaves_def Let_def
    by (rule foldl_invariant [where P = ?P, OF init]) (rule row)
qed

lemma grid_shape_replicate: "grid_shape (replicate h (replicate w v)) h w"
  by (simp add: grid_shape_def list_all_length)

lemma Array_grid_Inr:
  "Array_grid h w v = Inr km \<Longrightarrow> km = replicate (nat h) (replicate (nat w) v)"
  by (auto simp add: Array_grid_def Array_fill_def map_replicate_const split: if_splits)

lemma sum_list_bump:
  "(\<Sum>c\<leftarrow>[0..<w]. row ! c + (if P c then 1 else 0)) =
     sum_list (take w row) + length (filter P [0..<w])" if "w \<le> length row" for row :: "nat list"
  using that
proof (induction w)
  case 0
  show ?case by simp
next
  case (Suc w)
  then have "take (Suc w) row = take w row @ [row ! w]"
    by (simp add: take_Suc_conv_app_nth)
  with Suc show ?case by simp
qed

lemma length_row_events:
  "length (concat (map (knot_events this r) cs)) = length (filter (knot_at this r) cs)"
  by (induction cs) (simp_all add: length_knot_events)

lemma sum_knot_map_bump:
  assumes "grid_shape km h w" "k \<le> h"
  shows "sum_knot_map (map (\<lambda>r. map (\<lambda>c. km ! r ! c + (if P r c then 1 else 0)) [0..<w]) [0..<k]) =
         sum_knot_map (take k km) + (\<Sum>r\<leftarrow>[0..<k]. length (filter (P r) [0..<w]))"
  using assms(2)
proof (induction k)
  case 0
  show ?case by (simp add: sum_knot_map_def)
next
  case (Suc k)
  then have k: "k < h" by simp
  then have w: "length (km ! k) = w" using assms(1) by (rule_tac grid_shape_nth)
  have len: "length km = h" using assms(1) by (simp add: grid_shape_def)
  have tk: "take (Suc k) km = take k km @ [km ! k]"
    using k len by (simp add: take_Suc_conv_app_nth)
  have row: "(\<Sum>c\<leftarrow>[0..<w]. km ! k ! c + (if P k c then 1 else 0)) =
      sum_list (km ! k) + length (filter (P k) [0..<w])"
    using sum_list_bump [of w "km ! k" "P k"] w by simp
  show ?case
    using Suc k by (simp add: sum_knot_map_def tk row)
qed


lemma length_step_events:
  "length (concat (map (\<lambda>r. concat (map (knot_events this r) cs)) rs)) =
   (\<Sum>r\<leftarrow>rs. length (filter (knot_at this r) cs))"
  by (induction rs) (simp_all add: length_row_events)

lemma grid_shape_table: "grid_shape (map (\<lambda>r. map (f r) [0..<w]) [0..<h]) h w"
  by (simp add: grid_shape_def list_all_length)

lemma runSimulation_step_closed:
  fixes U :: RandomSource and t draws tot :: nat and this :: SubQGSimulator
  assumes "grid_shape (knot_map this) (nat (field_h (params this))) (nat (field_w (params this)))"
  defines "this1 \<equiv> fst (updateWaves U t (this, draws))"
  defines "h \<equiv> nat (field_h (params this))" and "w \<equiv> nat (field_w (params this))"
  shows "runSimulation_step U (this, draws, tot) t =
    (this1\<lparr> knot_map :=
               map (\<lambda>r. map (\<lambda>c. knot_map this ! r ! c + (if knot_at this1 r c then 1 else 0)) [0..<w])
                 [0..<h],
             detected_knot_base_values :=
               detected_knot_base_values this
               @ concat (map (\<lambda>r. concat (map (knot_events this1 r) [0..<w])) [0..<h]) \<rparr>,
     snd (updateWaves U t (this, draws)),
     tot + (\<Sum>r\<leftarrow>[0..<h]. length (filter (knot_at this1 r) [0..<w])))"
proof -
  have fr: "params this1 = params this" "knot_map this1 = knot_map this"
    "detected_knot_base_values this1 = detected_knot_base_values this"
    using updateWaves_frame [of U t "(this, draws)"] by (simp_all add: this1_def)
  have sh: "grid_shape (knot_map this1) h w"
    using assms(1) by (simp add: fr h_def w_def)
  have "foldl (\<lambda>s r. foldl (runSimulation_cell r) s [0..<w]) (this1, 0) [0..<h] =
    (this1\<lparr> knot_map :=
              map (\<lambda>r. map (\<lambda>c. knot_map this1 ! r ! c + (if knot_at this1 r c then 1 else 0)) [0..<w])
                [0..<h]
              @ drop h (knot_map this1),
            detected_knot_base_values :=
              detected_knot_base_values this1
              @ concat (map (\<lambda>r. concat (map (knot_events this1 r) [0..<w])) [0..<h]) \<rparr>,
     0 + (\<Sum>r\<leftarrow>[0..<h]. length (filter (knot_at this1 r) [0..<w])))"
    by (rule runSimulation_rows_prefix [OF sh]) simp
  moreover have "length (knot_map this1) = h"
    using sh by (simp add: grid_shape_def)
  ultimately show ?thesis
    by (simp add: runSimulation_step_def Let_def fr this1_def [symmetric] h_def [symmetric] w_def [symmetric])
qed

lemma runSimulation_step_inv:
  assumes "run_inv p s"
  shows "run_inv p (runSimulation_step U s t)"
proof -
  obtain this draws tot where s: "s = (this, draws, tot)"
    by (cases s) auto
  let ?this1 = "fst (updateWaves U t (this, draws))"
  let ?h = "nat (field_h p)" and ?w = "nat (field_w p)"
  from assms have p: "params this = p"
    and sh: "grid_shape (knot_map this) ?h ?w"
    and sm: "sum_knot_map (knot_map this) = length (detected_knot_base_values this)"
    and tl: "tot = length (detected_knot_base_values this)"
    by (simp_all add: run_inv_def s)
  have fr: "params ?this1 = p"
    using updateWaves_frame [of U t "(this, draws)"] p by simp
  have len: "length (knot_map this) = ?h"
    using sh by (simp add: grid_shape_def)
  have bump: "sum_knot_map (map (\<lambda>r. map (\<lambda>c. knot_map this ! r ! c
                 + (if knot_at ?this1 r c then 1 else 0)) [0..<?w]) [0..<?h]) =
      sum_knot_map (knot_map this) + (\<Sum>r\<leftarrow>[0..<?h]. length (filter (knot_at ?this1 r) [0..<?w]))"
    using sum_knot_map_bump [OF sh, of ?h "knot_at ?this1"] len by simp
  show ?thesis
    unfolding s using sh
    by (simp add: runSimulation_step_closed p run_inv_def fr grid_shape_table bump sm tl
        length_step_events)
qed

lemma sum_knot_map_zero: "sum_knot_map (replicate h (replicate w 0)) = 0"
  by (simp add: sum_knot_map_def sum_list_replicate)

lemma runSimulation_run_inv:
  assumes "runSimulation U (this, n) = Inr (s', res)"
  shows "\<exists>fin. run_inv (params this) fin \<and> s' = (fst fin, fst (snd fin))
           \<and> res = \<lparr> result_knot_map = knot_map (fst fin), total_knots = snd (snd fin) \<rparr>"
proof -
  let ?p = "params this"
  from assms obtain km where km: "Array_grid (field_h ?p) (field_w ?p) (0::nat) = Inr km"
    by (auto simp add: runSimulation_def Let_def split: sum.splits)
  let ?start = "this\<lparr> knot_map := km, detected_knot_base_values := [] \<rparr>"
  let ?fin = "foldl (runSimulation_step U) (?start, n, 0) [0..<nat (sim_duration ?p)]"
  have kmv: "km = replicate (nat (field_h ?p)) (replicate (nat (field_w ?p)) 0)"
    using km by (rule Array_grid_Inr)
  have init: "run_inv ?p (?start, n, 0)"
    by (simp add: run_inv_def kmv grid_shape_replicate sum_knot_map_zero)
  have inv: "run_inv ?p ?fin"
    using init by (rule foldl_invariant) (rule runSimulation_step_inv)
  have out: "s' = (fst ?fin, fst (snd ?fin))"
    "res = \<lparr> result_knot_map = knot_map (fst ?fin), total_knots = snd (snd ?fin) \<rparr>"
    using assms km by (simp_all add: runSimulation_def Let_def)
  from inv out show ?thesis by blast
qed

lemma grid_shape_empty_cols: "grid_shape m h 0 \<Longrightarrow> m = replicate h []"
  by (auto simp add: grid_shape_def list_all_length intro!: nth_equalityI)

lemma grid_shape_no_rows: "grid_shape m 0 w \<Longrightarrow> m = []"
  by (simp add: grid_shape_def)

lemma SubQGSimulator_new_ok:
  assumes "valid_length (field_h p)" "valid_length (field_w p)"
  shows "\<exists>this. SubQGSimulator_new p = Inr this \<and> params this = p"
  using assms
  by (simp add: SubQGSimulator_new_def Array_grid_def Array_fill_def valid_length_def)

lemma runSimulation_ok:
  assumes "valid_length (field_h (params this))" "valid_length (field_w (params this))"
  shows "\<exists>s' res. runSimulation U (this, n) = Inr (s', res)"
  using assms
  by (simp add: runSimulation_def Array_grid_def Array_fill_def valid_length_def Let_def)

lemma runSimulation_empty_grid:
  assumes "runSimulation U (this, n) = Inr (s', res)"
    and "sim_duration (params this) \<le> 0 \<or> field_h (params this) = 0 \<or> field_w (params this) = 0"
  shows "res = \<lparr> result_knot_map =
                   replicate (nat (field_h (params this))) (replicate (nat (field_w (params this))) 0),
                 total_knots = 0 \<rparr>"
proof (cases "sim_duration (params this) \<le> 0")
  case True
  with assms(1) show ?thesis
    by (auto simp add: runSimulation_def Let_def split: sum.splits dest: Array_grid_Inr)
next
  case False
  with assms(2) have hw: "nat (field_h (params this)) = 0 \<or> nat (field_w (params this)) = 0"
    by auto
  from runSimulation_run_inv [OF assms(1)] obtain fin where
    inv: "run_inv (params this) fin"
    and res: "res = \<lparr> result_knot_map = knot_map (fst fin), total_knots = snd (snd fin) \<rparr>"
    by blast
  from inv have sh: "grid_shape (knot_map (fst fin)) (nat (field_h (params this))) (nat (field_w (params this)))"
    and tot: "snd (snd fin) = sum_knot_map (knot_map (fst fin))"
    by (simp_all add: run_inv_def)
  from hw sh have km: "knot_map (fst fin) =
      replicate (nat (field_h (params this))) (replicate (nat (field_w (params this))) 0)"
    by (auto dest: grid_shape_empty_cols grid_shape_no_rows)
  show ?thesis
    unfolding res tot km by (simp add: sum_knot_map_zero)
qed

text \<open>
  Claim C2, as the code behaves. The simulator validates nothing itself. With sizes the
  array constructor accepts, a duration of zero or less, or a zero width or height,
  returns normally: the all-zero map of the given height and width and a total of 0.
  Only the array constructor fails: a negative height raises \<open>RangeError\<close>, and so
  does a negative width when there is at least one row.
\<close>

theorem simulate_without_validation:
  "(valid_length (field_h p) \<and> valid_length (field_w p)
      \<and> (sim_duration p \<le> 0 \<or> field_h p = 0 \<or> field_w p = 0) \<longrightarrow>
    simulate_result U p =
      Inr \<lparr> result_knot_map = replicate (nat (field_h p)) (replicate (nat (field_w p)) 0),
            total_knots = 0 \<rparr>)
   \<and> (\<not> valid_length (field_h p) \<longrightarrow> simulate_result U p = Inl RangeError)
   \<and> (valid_length (field_h p) \<and> field_h p \<noteq> 0 \<and> \<not> valid_length (field_w p) \<longrightarrow>
        simulate_result U p = Inl RangeError)"
proof (intro conjI impI)
  assume a: "valid_length (field_h p) \<and> valid_length (field_w p)
      \<and> (sim_duration p \<le> 0 \<or> field_h p = 0 \<or> field_w p = 0)"
  then obtain this where new: "SubQGSimulator_new p = Inr this" and p: "params this = p"
    using SubQGSimulator_new_ok by blast
  from a p obtain s' res where run: "runSimulation U (this, 0) = Inr (s', res)"
    using runSimulation_ok [of this U 0] by auto
  from runSimulation_empty_grid [OF run] a p
  have "res = \<lparr> result_knot_map = replicate (nat (field_h p)) (replicate (nat (field_w p)) 0),
            total_knots = 0 \<rparr>"
    by simp
  then show "simulate_result U p =
      Inr \<lparr> result_knot_map = replicate (nat (field_h p)) (replicate (nat (field_w p)) 0),
            total_knots = 0 \<rparr>"
    by (simp add: simulate_result_def simulate_def new run)
next
  assume "\<not> valid_length (field_h p)"
  then show "simulate_result U p = Inl RangeError"
    by (auto simp add: simulate_result_def simulate_def SubQGSimulator_new_def Array_grid_def
        Array_fill_def valid_length_def)
next
  assume "valid_length (field_h p) \<and> field_h p \<noteq> 0 \<and> \<not> valid_length (field_w p)"
  then show "simulate_result U p = Inl RangeError"
    by (auto simp add: simulate_result_def simulate_def SubQGSimulator_new_def Array_grid_def
        Array_fill_def valid_length_def)
qed

text \<open>
  Claim C2 as stated fails: with \<open>T = 0\<close> on a 4 by 4 grid the simulator returns a
  normal result, the all-zero map and a total of 0.
\<close>

theorem simulate_zero_duration_returns:
  "simulate_result zero_source cfg_no_duration =
     Inr \<lparr> result_knot_map = [[0, 0, 0, 0], [0, 0, 0, 0], [0, 0, 0, 0], [0, 0, 0, 0]],
           total_knots = 0 \<rparr>"
  by (simp add: simulate_result_def simulate_def SubQGSimulator_new_def runSimulation_def
      cfg_no_duration_def Array_grid_def Array_fill_def Let_def eval_nat_numeral)

theorem simulate_without_validation_witness:
  "simulate_result zero_source (cfg_no_duration\<lparr> field_w := 0 \<rparr>) =
      Inr \<lparr> result_knot_map = [[], [], [], []], total_knots = 0 \<rparr>
   \<and> simulate_result zero_source (cfg_no_duration\<lparr> field_h := - 1 \<rparr>) = Inl RangeError
   \<and> simulate_result zero_source (cfg_no_duration\<lparr> field_w := - 1 \<rparr>) = Inl RangeError"
  using simulate_without_validation [of "cfg_no_duration\<lparr> field_w := 0 \<rparr>" zero_source]
    simulate_without_validation [of "cfg_no_duration\<lparr> field_h := - 1 \<rparr>" zero_source]
    simulate_without_validation [of "cfg_no_duration\<lparr> field_w := - 1 \<rparr>" zero_source]
  by (simp add: cfg_no_duration_def valid_length_def eval_nat_numeral)

section \<open>A run in which every cell is a knot at every step\<close>

lemma linspace_nth:
  "num \<noteq> 1 \<Longrightarrow> i < nat num \<Longrightarrow>
   linspace start stop num ! i = Some (start + (stop - start) / real_of_int (num - 1) * real i)"
  by (simp add: linspace_def Let_def)

lemma wave_value_above:
  assumes "thr < u * noise" "thr < 1 + noise"
  shows "\<exists>v. wave_value tc (Some sp) u noise = Some v \<and> thr < v"
proof -
  have "u * noise \<le> \<bar>tc + sp\<bar> / 2 + u * noise" by simp
  with assms(1) have "thr < \<bar>tc + sp\<bar> / 2 + u * noise" by linarith
  with assms(2) show ?thesis
    by (simp add: wave_value_def clamp_def less_max_iff_disj)
qed

lemma Array_grid_valid:
  "valid_length h \<Longrightarrow> valid_length w \<Longrightarrow>
   Array_grid h w v = Inr (replicate (nat h) (replicate (nat w) v))"
  by (simp add: Array_grid_def Array_fill_def valid_length_def map_replicate_const)

lemma foldl_upt_invariant:
  assumes "P 0 s" and "\<And>k s. k < n \<Longrightarrow> P k s \<Longrightarrow> P (Suc k) (f s k)"
  shows "P n (foldl f s [0..<n])"
  using assms(2)
proof (induction n)
  case 0
  show ?case using assms(1) by simp
next
  case (Suc n)
  have "P n (foldl f s [0..<n])"
    by (rule Suc.IH) (simp add: Suc.prems)
  then have "P (Suc n) (f (foldl f s [0..<n]) n)"
    by (rule Suc.prems [rotated]) simp
  then show ?case by simp
qed

text \<open>
  With a constant random source \<open>u\<close>, equal angular frequencies and a threshold below
  \<open>u * noise\<close>, every cell of the fields \<open>updateWaves\<close> writes is a knot: energy and
  phase are the same number, at least \<open>u * noise\<close>.
\<close>

lemma dense_knot_at:
  fixes this :: SubQGSimulator and u :: real
  assumes shape: "grid_shape (energy_field this) (nat (field_h (params this))) (nat (field_w (params this)))"
      "grid_shape (phase_field this) (nat (field_h (params this))) (nat (field_w (params this)))"
    and om: "omega_phase this = omega_energy this"
    and sz: "field_h (params this) \<noteq> 1" "field_w (params this) \<noteq> 1"
    and thr: "threshold_s (params this) < u * noise_factor (params this)"
      "threshold_s (params this) < 1 + noise_factor (params this)"
    and rc: "r < nat (field_h (params this))" "c < nat (field_w (params this))"
  shows "knot_at (fst (updateWaves (\<lambda>_. u) t (this, n))) r c"
proof -
  let ?te = "sin (omega_energy this * real t / real_of_int (sim_duration (params this)))"
  obtain x where x: "linspace 0 (2 * Math_PI) (field_w (params this)) ! c = Some x"
    using linspace_nth [OF sz(2) rc(2)] by blast
  obtain y where y: "linspace 0 (2 * Math_PI) (field_h (params this)) ! r = Some y"
    using linspace_nth [OF sz(1) rc(1)] by blast
  obtain v where v: "wave_value ?te (Some (sin x * cos y)) u (noise_factor (params this)) = Some v"
    and above: "threshold_s (params this) < v"
    using wave_value_above [OF thr] by blast
  have e: "energy_field (fst (updateWaves (\<lambda>_. u) t (this, n))) ! r ! c = Some v"
    unfolding updateWaves_closed [OF shape]
    using rc by (simp add: wave_at_def x y spatial_component_def v)
  have p: "phase_field (fst (updateWaves (\<lambda>_. u) t (this, n))) ! r ! c = Some v"
    unfolding updateWaves_closed [OF shape]
    using rc by (simp add: wave_at_def x y spatial_component_def v om)
  have th: "threshold_s (params (fst (updateWaves (\<lambda>_. u) t (this, n)))) = threshold_s (params this)"
    using updateWaves_frame [of "\<lambda>_. u" t "(this, n)"] by simp
  show ?thesis
    by (simp add: knot_at_def e p detected_knot_this_step_def Let_def th above)
qed

lemma dense_step:
  assumes inv: "dense_inv p k s"
    and sz: "field_h p \<noteq> 1" "field_w p \<noteq> 1"
    and thr: "threshold_s p < u * noise_factor p" "threshold_s p < 1 + noise_factor p"
  shows "dense_inv p (Suc k) (runSimulation_step (\<lambda>_. u) s t)"
proof -
  obtain this draws tot where s: "s = (this, draws, tot)"
    by (cases s) auto
  let ?h = "nat (field_h p)" and ?w = "nat (field_w p)"
  let ?this1 = "fst (updateWaves (\<lambda>_. u) t (this, draws))"
  from inv have p: "params this = p"
    and om: "omega_phase this = omega_energy this"
    and she: "grid_shape (energy_field this) ?h ?w"
    and shp: "grid_shape (phase_field this) ?h ?w"
    and km: "knot_map this = replicate ?h (replicate ?w k)"
    and lg: "length (detected_knot_base_values this) = ?h * ?w * k"
    and tt: "tot = ?h * ?w * k"
    by (simp_all add: dense_inv_def s)
  have shk: "grid_shape (knot_map this) (nat (field_h (params this))) (nat (field_w (params this)))"
    by (simp add: km p grid_shape_replicate)
  have she': "grid_shape (energy_field this) (nat (field_h (params this))) (nat (field_w (params this)))"
    and shp': "grid_shape (phase_field this) (nat (field_h (params this))) (nat (field_w (params this)))"
    using she shp by (simp_all add: p)
  have knot: "knot_at ?this1 r c" if "r < ?h" "c < ?w" for r c
    by (rule dense_knot_at [OF she' shp' om]) (use that sz thr in \<open>simp_all add: p\<close>)
  have fr: "params ?this1 = p" "omega_phase ?this1 = omega_energy ?this1"
    "grid_shape (energy_field ?this1) ?h ?w" "grid_shape (phase_field ?this1) ?h ?w"
    unfolding updateWaves_closed [OF she' shp']
    by (simp_all add: p om grid_shape_table)
  have row: "filter (knot_at ?this1 r) [0..<?w] = [0..<?w]" if "r < ?h" for r
    using knot [OF that] by (simp add: filter_id_conv)
  have cnt: "(\<Sum>r\<leftarrow>[0..<?h]. length (filter (knot_at ?this1 r) [0..<?w])) = ?h * ?w"
  proof -
    have "(\<Sum>r\<leftarrow>[0..<?h]. length (filter (knot_at ?this1 r) [0..<?w])) = (\<Sum>r\<leftarrow>[0..<?h]. ?w)"
      by (intro arg_cong [where f = sum_list] map_cong refl) (simp add: row)
    also have "\<dots> = ?h * ?w"
      by (simp add: sum_list_triv)
    finally show ?thesis .
  qed
  have kmap: "map (\<lambda>r. map (\<lambda>c. knot_map this ! r ! c + (if knot_at ?this1 r c then 1 else 0))
                  [0..<?w]) [0..<?h] = replicate ?h (replicate ?w (Suc k))"
  proof -
    have "map (\<lambda>r. map (\<lambda>c. knot_map this ! r ! c + (if knot_at ?this1 r c then 1 else 0))
                  [0..<?w]) [0..<?h] = map (\<lambda>r. map (\<lambda>c. Suc k) [0..<?w]) [0..<?h]"
      by (intro map_cong refl) (simp add: km knot)
    then show ?thesis
      by (simp add: map_replicate_trivial)
  qed
  have step: "runSimulation_step (\<lambda>_. u) (this, draws, tot) t =
    (?this1\<lparr> knot_map := replicate ?h (replicate ?w (Suc k)),
             detected_knot_base_values :=
               detected_knot_base_values this
               @ concat (map (\<lambda>r. concat (map (knot_events ?this1 r) [0..<?w])) [0..<?h]) \<rparr>,
     snd (updateWaves (\<lambda>_. u) t (this, draws)),
     tot + ?h * ?w)"
    unfolding runSimulation_step_closed [OF shk] p kmap cnt ..
  show ?thesis
    unfolding s step
    by (simp add: dense_inv_def fr lg tt length_step_events cnt)
qed

text \<open>
  The whole run: every entry of the returned map is the number of steps, and the total
  and the log's length are the number of cells times the number of steps. The precision
  is kept to the exponents whose power of ten is a double, so that the rounding factor
  of the model is the one of the program.
\<close>

lemma dense_run:
  fixes p :: SubQGParams and u :: real
  defines "h \<equiv> nat (field_h p)" and "w \<equiv> nat (field_w p)" and "T \<equiv> nat (sim_duration p)"
  assumes ok: "valid_length (field_h p)" "valid_length (field_w p)"
    and sz: "field_h p \<noteq> 1" "field_w p \<noteq> 1"
    and fr: "f_phase p = f_energy p"
    and thr: "threshold_s p < u * noise_factor p" "threshold_s p < 1 + noise_factor p"
    and prec: "0 \<le> decimal_precision p" "decimal_precision p \<le> 22"
  shows "\<exists>s'. simulate (\<lambda>_. u) p =
           Inr (s', \<lparr> result_knot_map = replicate h (replicate w T), total_knots = h * w * T \<rparr>)
         \<and> length (detected_knot_base_values (fst s')) = h * w * T"
proof -
  let ?start = "\<lparr> params = p,
      energy_field = replicate h (replicate w (Some 0)),
      phase_field = replicate h (replicate w (Some 0)),
      knot_map = replicate h (replicate w 0),
      detected_knot_base_values = [],
      rounding_factor = 10 powi (decimal_precision p),
      omega_energy = f_energy p * 2 * Math_PI,
      omega_phase = f_phase p * 2 * Math_PI \<rparr>"
  have new: "SubQGSimulator_new p = Inr ?start"
    by (simp add: SubQGSimulator_new_def Array_grid_valid [OF ok] h_def w_def)
  let ?fin = "foldl (runSimulation_step (\<lambda>_. u)) (?start, 0, 0) [0..<T]"
  have run: "runSimulation (\<lambda>_. u) (?start, 0) =
      Inr ((fst ?fin, fst (snd ?fin)),
           \<lparr> result_knot_map = knot_map (fst ?fin), total_knots = snd (snd ?fin) \<rparr>)"
    by (simp add: runSimulation_def Let_def Array_grid_valid [OF ok] h_def w_def T_def)
  have init: "dense_inv p 0 (?start, 0, 0)"
    by (simp add: dense_inv_def fr grid_shape_replicate h_def w_def)
  have "dense_inv p T ?fin"
    using init by (rule foldl_upt_invariant) (rule dense_step [OF _ sz thr])
  then have "knot_map (fst ?fin) = replicate h (replicate w T)"
    and "snd (snd ?fin) = h * w * T"
    and "length (detected_knot_base_values (fst ?fin)) = h * w * T"
    by (simp_all add: dense_inv_def h_def w_def)
  then show ?thesis
    by (simp add: simulate_def new run)
qed

text \<open>
  The run \<^const>\<open>cfg_dense\<close>: \<open>128 * 128 * 100 = 1638400\<close> knots, every entry of the
  map 100.
\<close>

lemma cfg_dense_run:
  "\<exists>s'. simulate half_source cfg_dense =
           Inr (s', \<lparr> result_knot_map = replicate 128 (replicate 128 100),
                      total_knots = 1638400 \<rparr>)
         \<and> length (detected_knot_base_values (fst s')) = 1638400"
  using dense_run [of cfg_dense "1 / 2"]
  by (simp add: cfg_dense_def half_source_def valid_length_def)

text \<open>
  The analysis that follows that run calls \<open>Math.max\<close> with 1638400 arguments: on an
  engine that accepts fewer, the caller's sequence ends with \<open>RangeError\<close>.
\<close>

lemma cfg_dense_analysis_raises:
  assumes "max_arguments < 1638400"
  shows "simulate_then_analyze max_arguments half_source cfg_dense = Inl RangeError"
proof -
  from cfg_dense_run obtain s' where
    run: "simulate half_source cfg_dense =
           Inr (s', \<lparr> result_knot_map = replicate 128 (replicate 128 100),
                      total_knots = 1638400 \<rparr>)"
    and len: "length (detected_knot_base_values (fst s')) = 1638400"
    by blast
  from len have ne: "detected_knot_base_values (fst s') \<noteq> []"
    by auto
  have "analyzeRiemannProjection max_arguments (fst s') = Inl RangeError"
    unfolding analyze_raises_iff(1) [OF ne] using assms by (simp add: len)
  then show ?thesis
    by (simp add: simulate_then_analyze_def run)
qed

section \<open>The 4 by 4 scenario with a constant random source\<close>

subsection \<open>\<open>Math.PI\<close> is below \<open>\<pi>\<close>\<close>

text \<open>
  The partial sums of the series of the arc tangent enclose it, and Machin's formula
  turns twelve terms for \<open>1/5\<close> and three for \<open>1/239\<close> into a lower bound of \<open>\<pi>\<close>
  that is above the double \<open>Math.PI\<close>.
\<close>

lemma arctan_partial_sums:
  fixes x :: real
  assumes "0 < x" "x \<le> 1"
  shows "(\<Sum>i<2 * n. (- 1) ^ i * (1 / real (i * 2 + 1) * x ^ (i * 2 + 1))) \<le> arctan x"
    and "arctan x \<le> (\<Sum>i<2 * n + 1. (- 1) ^ i * (1 / real (i * 2 + 1) * x ^ (i * 2 + 1)))"
proof -
  have ab: "\<bar>x\<bar> \<le> 1" using assms by simp
  have pos: "0 < 1 / real (0 * 2 + 1) * x ^ (0 * 2 + 1)" using assms by simp
  from summable_Leibniz(2) [OF zeroseq_arctan_series [OF ab] monoseq_arctan_series [OF ab]] pos
  have "\<forall>n. (\<Sum>i. (- 1) ^ i * (1 / real (i * 2 + 1) * x ^ (i * 2 + 1)))
      \<in> {\<Sum>i<2 * n. (- 1) ^ i * (1 / real (i * 2 + 1) * x ^ (i * 2 + 1)) ..
          \<Sum>i<2 * n + 1. (- 1) ^ i * (1 / real (i * 2 + 1) * x ^ (i * 2 + 1))}"
    by blast
  then have "arctan x \<in> {\<Sum>i<2 * n. (- 1) ^ i * (1 / real (i * 2 + 1) * x ^ (i * 2 + 1)) ..
          \<Sum>i<2 * n + 1. (- 1) ^ i * (1 / real (i * 2 + 1) * x ^ (i * 2 + 1))}"
    unfolding arctan_series [OF ab] by blast
  then show "(\<Sum>i<2 * n. (- 1) ^ i * (1 / real (i * 2 + 1) * x ^ (i * 2 + 1))) \<le> arctan x"
    and "arctan x \<le> (\<Sum>i<2 * n + 1. (- 1) ^ i * (1 / real (i * 2 + 1) * x ^ (i * 2 + 1)))"
    by simp_all
qed

lemma Math_PI_less_pi: "Math_PI < pi"
proof -
  let ?a = "\<Sum>i<12. (- 1) ^ i * (1 / real (i * 2 + 1) * (1 / 5 :: real) ^ (i * 2 + 1))"
  let ?b = "\<Sum>i<3. (- 1) ^ i * (1 / real (i * 2 + 1) * (1 / 239 :: real) ^ (i * 2 + 1))"
  have a: "?a \<le> arctan (1 / 5)"
    using arctan_partial_sums(1) [of "1 / 5" 6] by simp
  have b: "arctan (1 / 239) \<le> ?b"
    using arctan_partial_sums(2) [of "1 / 239" 1] by simp
  have "Math_PI / 4 < 4 * ?a - ?b"
    by (simp add: Math_PI_def lessThan_nat_numeral lessThan_Suc power_divide)
  also have "\<dots> \<le> 4 * arctan (1 / 5) - arctan (1 / 239)"
    using a b by linarith
  also have "\<dots> = pi / 4"
    using machin by simp
  finally show ?thesis by simp
qed

lemma Math_PI_gt_3: "3 < Math_PI"
  by (simp add: Math_PI_def)

lemma cos_neg_second_third: "pi / 2 < x \<Longrightarrow> x < 3 * pi / 2 \<Longrightarrow> cos x < 0" for x :: real
  using cos_gt_zero_pi [of "x - pi"] by simp

lemma cos_pos_fourth: "3 * pi / 2 < x \<Longrightarrow> x < 2 * pi \<Longrightarrow> 0 < cos x" for x :: real
  using cos_gt_zero_pi [of "x - 2 * pi"] cos_periodic [of "x - 2 * pi"] by simp

subsection \<open>The field of the scenario\<close>

text \<open>
  The grid coordinates are \<open>0\<close>, \<open>2 * Math.PI / 3\<close>, \<open>4 * Math.PI / 3\<close> and
  \<open>2 * Math.PI\<close>. The sine is 0 at the first only and the cosine at none of them:
  \<open>2 * Math.PI\<close> lies strictly between \<open>3 * \<pi> / 2\<close> and \<open>2 * \<pi>\<close>.
\<close>

lemma scenario_sin_nonzero:
  assumes "c = 1 \<or> c = 2 \<or> c = 3"
  shows "sin (2 * Math_PI / 3 * real c) \<noteq> 0"
proof -
  note b = Math_PI_less_pi Math_PI_gt_3 pi_less_4
  from assms consider "c = 1" | "c = 2" | "c = 3" by blast
  then show ?thesis
  proof cases
    case 1
    have "0 < sin (2 * Math_PI / 3)"
      by (rule sin_gt_zero) (use b in simp_all)
    with 1 show ?thesis by simp
  next
    case 2
    have "sin (2 * Math_PI / 3 * 2) < 0"
      by (rule sin_lt_zero) (use b in simp_all)
    with 2 show ?thesis by simp
  next
    case 3
    have "sin (2 * Math_PI / 3 * 3) < 0"
      by (rule sin_lt_zero) (use b in simp_all)
    with 3 show ?thesis by simp
  qed
qed

lemma scenario_cos_nonzero:
  assumes "r < 4"
  shows "cos (2 * Math_PI / 3 * real r) \<noteq> 0"
proof -
  note b = Math_PI_less_pi Math_PI_gt_3 pi_less_4
  from assms consider "r = 0" | "r = 1" | "r = 2" | "r = 3" by linarith
  then show ?thesis
  proof cases
    case 1
    then show ?thesis by simp
  next
    case 2
    have "cos (2 * Math_PI / 3) < 0"
      by (rule cos_neg_second_third) (use b in simp_all)
    with 2 show ?thesis by simp
  next
    case 3
    have "cos (2 * Math_PI / 3 * 2) < 0"
      by (rule cos_neg_second_third) (use b in simp_all)
    with 3 show ?thesis by simp
  next
    case 4
    have "0 < cos (2 * Math_PI / 3 * 3)"
      by (rule cos_pos_fourth) (use b in simp_all)
    with 4 show ?thesis by simp
  qed
qed

lemma scenario_value_col0: "scenario_value r 0 = 0"
  by (simp add: scenario_value_def)

lemma scenario_value_pos:
  assumes "r < 4" "c = 1 \<or> c = 2 \<or> c = 3"
  shows "0 < scenario_value r c"
  using scenario_sin_nonzero [OF assms(2)] scenario_cos_nonzero [OF assms(1)]
  by (simp add: scenario_value_def)

lemma scenario_value_bounds: "0 \<le> scenario_value r c \<and> scenario_value r c \<le> 1"
proof -
  have "\<bar>sin (2 * Math_PI / 3 * real c) * cos (2 * Math_PI / 3 * real r)\<bar> \<le> 1 * 1"
    unfolding abs_mult by (intro mult_mono) simp_all
  then show ?thesis by (simp add: scenario_value_def)
qed

lemma scenario_linspace_nth:
  "i < 4 \<Longrightarrow> linspace 0 (2 * Math_PI) 4 ! i = Some (2 * Math_PI / 3 * real i)"
  by (simp add: linspace_def)

lemma scenario_wave_at:
  assumes "r < 4" "c < 4"
  shows "wave_at zero_source n 0 (linspace 0 (2 * Math_PI) 4) (linspace 0 (2 * Math_PI) 4) 0 4 r c =
         Some (scenario_value r c)"
proof -
  have "clamp (scenario_value r c) 0 1 = scenario_value r c"
    using scenario_value_bounds [of r c] by (simp add: clamp_def)
  then show ?thesis
    using assms
    by (simp add: wave_at_def scenario_linspace_nth spatial_component_def wave_value_def
        zero_source_def scenario_value_def)
qed

lemma scenario_wave_table:
  "map (\<lambda>r. map (wave_at zero_source n 0 (linspace 0 (2 * Math_PI) 4) (linspace 0 (2 * Math_PI) 4) 0 4 r)
          [0..<4]) [0..<4] = scenario_field"
  unfolding scenario_field_def
  by (intro list.map_cong0) (simp add: scenario_wave_at)

lemma scenario_new: "SubQGSimulator_new cfg_scenario = Inr scenario_start"
  by (simp add: SubQGSimulator_new_def cfg_scenario_def Array_grid_def Array_fill_def
      scenario_start_def map_replicate_const)

lemma scenario_updateWaves:
  "updateWaves zero_source 0 (scenario_start, 0) =
     (scenario_start\<lparr> energy_field := scenario_field, phase_field := scenario_field \<rparr>, 32)"
proof -
  have p: "params scenario_start = cfg_scenario" by (simp add: scenario_start_def)
  have sh: "grid_shape (energy_field scenario_start) (nat (field_h (params scenario_start)))
              (nat (field_w (params scenario_start)))"
     "grid_shape (phase_field scenario_start) (nat (field_h (params scenario_start)))
              (nat (field_w (params scenario_start)))"
    by (simp_all add: scenario_start_def cfg_scenario_def grid_shape_def list_all_length)
  show ?thesis
    unfolding updateWaves_closed [OF sh]
    by (simp add: p cfg_scenario_def scenario_wave_table)
qed


lemma scenario_field_nth:
  "r < 4 \<Longrightarrow> c < 4 \<Longrightarrow> scenario_field ! r ! c = Some (scenario_value r c)"
  by (simp add: scenario_field_def)

lemma scenario_knot_at:
  "r < 4 \<Longrightarrow> c < 4 \<Longrightarrow> knot_at scenario_waves r c \<longleftrightarrow> 0 < scenario_value r c"
  by (simp add: knot_at_def scenario_waves_def scenario_field_nth detected_knot_this_step_def
      scenario_start_def cfg_scenario_def)

lemma scenario_knot_events:
  "r < 4 \<Longrightarrow> c < 4 \<Longrightarrow>
   knot_events scenario_waves r c = (if 0 < scenario_value r c then [scenario_value r c] else [])"
  by (simp add: knot_events_def scenario_knot_at) (simp add: scenario_waves_def scenario_field_nth)

lemma scenario_step:
  "runSimulation_step zero_source (scenario_start, 0, 0) 0 =
     (scenario_waves\<lparr> knot_map := scenario_knots, detected_knot_base_values := scenario_log \<rparr>,
      32, length scenario_log)"
proof -
  have sh: "grid_shape (knot_map scenario_start) (nat (field_h (params scenario_start)))
              (nat (field_w (params scenario_start)))"
    by (simp add: scenario_start_def cfg_scenario_def grid_shape_def list_all_length)
  have w: "fst (updateWaves zero_source 0 (scenario_start, 0)) = scenario_waves"
    "snd (updateWaves zero_source 0 (scenario_start, 0)) = 32"
    by (simp_all add: scenario_updateWaves scenario_waves_def)
  have hw: "nat (field_h (params scenario_start)) = 4" "nat (field_w (params scenario_start)) = 4"
    by (simp_all add: scenario_start_def cfg_scenario_def)
  have km: "map (\<lambda>r. map (\<lambda>c. knot_map scenario_start ! r ! c
                + (if knot_at scenario_waves r c then 1 else 0)) [0..<4]) [0..<4] = scenario_knots"
    unfolding scenario_knots_def
    by (intro list.map_cong0) (simp add: scenario_knot_at scenario_start_def)
  have lg: "concat (map (\<lambda>r. concat (map (knot_events scenario_waves r) [0..<4])) [0..<4]) =
      scenario_log"
    unfolding scenario_log_def
    by (intro arg_cong [where f = concat] list.map_cong0) (simp add: scenario_knot_events)
  have ct: "(\<Sum>r\<leftarrow>[0..<4]. length (filter (knot_at scenario_waves r) [0..<4])) =
      length scenario_log"
    unfolding lg [symmetric] by (simp only: length_step_events)
  have d: "detected_knot_base_values scenario_start = []"
    by (simp add: scenario_start_def)
  show ?thesis
    unfolding runSimulation_step_closed [OF sh] w hw km lg ct d by simp
qed

lemma scenario_runSimulation:
  "runSimulation zero_source (scenario_start, 0) =
     Inr ((scenario_final, 32),
          \<lparr> result_knot_map = scenario_knots, total_knots = length scenario_log \<rparr>)"
proof -
  have reset: "scenario_start\<lparr> knot_map := replicate 4 (replicate 4 0),
      detected_knot_base_values := [] \<rparr> = scenario_start"
    by (simp add: scenario_start_def)
  have p: "params scenario_start = cfg_scenario"
    by (simp add: scenario_start_def)
  have g: "Array_grid (field_h (params scenario_start)) (field_w (params scenario_start)) (0::nat) =
      Inr (replicate 4 (replicate 4 0))"
    by (simp add: p cfg_scenario_def Array_grid_def Array_fill_def map_replicate_const)
  have t: "[0..<nat (sim_duration (params scenario_start))] = [0]"
    by (simp add: p cfg_scenario_def)
  show ?thesis
    unfolding runSimulation_def Let_def fst_conv snd_conv g t
    by (simp add: reset scenario_step scenario_final_def)
qed

lemma scenario_run:
  "simulate zero_source cfg_scenario =
     Inr ((scenario_final, 32),
          \<lparr> result_knot_map = scenario_knots, total_knots = length scenario_log \<rparr>)"
  by (simp add: simulate_def scenario_new scenario_runSimulation)

lemma upt_4: "[0..<4] = [0, 1, 2, 3]"
  by (simp add: upt_rec)

lemma scenario_knots_eq:
  "scenario_knots = [[0, 1, 1, 1], [0, 1, 1, 1], [0, 1, 1, 1], [0, 1, 1, 1]]"
  by (simp add: scenario_knots_def upt_4 scenario_value_col0 scenario_value_pos)

lemma scenario_log_eq:
  "scenario_log =
     [scenario_value 0 1, scenario_value 0 2, scenario_value 0 3,
      scenario_value 1 1, scenario_value 1 2, scenario_value 1 3,
      scenario_value 2 1, scenario_value 2 2, scenario_value 2 3,
      scenario_value 3 1, scenario_value 3 2, scenario_value 3 3]"
  by (simp add: scenario_log_def upt_4 scenario_value_col0 scenario_value_pos)

lemma scenario_log_length: "length scenario_log = 12"
  by (simp add: scenario_log_eq)

text \<open>
  Claim C3, as the code behaves. In the scenario every cell's energy equals its phase,
  both \<open>|sin x * cos y| / 2\<close>, and a cell registers a knot exactly when that value is
  strictly above the threshold 0. The four cells of column 0, where \<open>x = 0\<close> and the
  value is 0, register no knot. The other twelve do, those of the last column too, where
  \<open>x = 2 * Math.PI\<close> and the sine is not 0. The run returns the map with rows
  \<open>[0, 1, 1, 1]\<close> and a total of 12, and logs the twelve positive values.
\<close>

theorem scenario_knots_where_positive:
  "simulate zero_source cfg_scenario =
     Inr ((scenario_final, 32),
          \<lparr> result_knot_map = [[0, 1, 1, 1], [0, 1, 1, 1], [0, 1, 1, 1], [0, 1, 1, 1]],
            total_knots = 12 \<rparr>)
   \<and> energy_field scenario_final = scenario_field
   \<and> phase_field scenario_final = scenario_field
   \<and> knot_map scenario_final = [[0, 1, 1, 1], [0, 1, 1, 1], [0, 1, 1, 1], [0, 1, 1, 1]]
   \<and> detected_knot_base_values scenario_final =
       [scenario_value 0 1, scenario_value 0 2, scenario_value 0 3,
        scenario_value 1 1, scenario_value 1 2, scenario_value 1 3,
        scenario_value 2 1, scenario_value 2 2, scenario_value 2 3,
        scenario_value 3 1, scenario_value 3 2, scenario_value 3 3]"
  using scenario_run scenario_knots_eq scenario_log_eq
  by (simp add: scenario_final_def scenario_waves_def scenario_log_length)

text \<open>
  Claim C3 as stated fails: the scenario's run returns \<open>total_knots = 12\<close>, not 16; the
  energy of cell \<open>(0, 0)\<close> is 0, not above the threshold.
\<close>

theorem scenario_not_sixteen_knots:
  "simulate_result zero_source cfg_scenario =
     Inr \<lparr> result_knot_map = [[0, 1, 1, 1], [0, 1, 1, 1], [0, 1, 1, 1], [0, 1, 1, 1]],
           total_knots = 12 \<rparr>
   \<and> scenario_field ! 0 ! 0 = Some 0"
  by (simp add: simulate_result_def scenario_run scenario_knots_eq scenario_log_length
      scenario_field_def scenario_value_col0 upt_4)

section \<open>The analysis after a run\<close>

text \<open>
  Claim C6. For a non-empty event log and any scaling constant, the analysis either
  raises or reports a standard deviation. It raises \<open>RangeError\<close> when the log has more
  than one element and more elements than the engine accepts as arguments of one call:
  \<open>calculatePtp\<close> spreads the projected values into \<open>Math.max\<close>. Otherwise the
  reported standard deviation is the population standard deviation of the projected
  values \<open>raw * 5 * c\<close> when there is more than one of them and their range is strictly
  positive, and exactly 1 otherwise. The run \<^const>\<open>cfg_dense\<close> logs 1638400 events and
  the analysis that follows it raises on an engine that accepts 500000 arguments.
\<close>

theorem analyze_std_dev:
  "(detected_knot_base_values this \<noteq> [] \<longrightarrow>
      map_sum id std_dev_re_s (analyzeRiemannProjection max_arguments this) =
        (let projected = map (\<lambda>raw. raw * 5 * re_s_scaling_c (params this))
                             (detected_knot_base_values this)
         in if 1 < length projected \<and> max_arguments < length projected then Inl RangeError
            else Inr (if 1 < length projected \<and> 0 < spec_range projected
                      then spec_population_stddev projected else 1)))
   \<and> map_sum id (std_dev_re_s \<circ> snd) (simulate_then_analyze 500000 half_source cfg_dense) =
       Inl RangeError"
proof (intro conjI impI)
  assume ne: "detected_knot_base_values this \<noteq> []"
  let ?projected = "map (\<lambda>raw. raw * 5 * re_s_scaling_c (params this))
                        (detected_knot_base_values this)"
  show "map_sum id std_dev_re_s (analyzeRiemannProjection max_arguments this) =
        (let projected = ?projected
         in if 1 < length projected \<and> max_arguments < length projected then Inl RangeError
            else Inr (if 1 < length projected \<and> 0 < spec_range projected
                      then spec_population_stddev projected else 1))"
  proof (cases "1 < length (detected_knot_base_values this)
                \<and> max_arguments < length (detected_knot_base_values this)")
    case True
    then have "analyzeRiemannProjection max_arguments this = Inl RangeError"
      using analyze_raises_iff(1) [OF ne] by blast
    with True show ?thesis by (simp add: Let_def)
  next
    case False
    then obtain stats where stats: "analyzeRiemannProjection max_arguments this = Inr stats"
      using analyze_raises_iff(2) [OF ne] by blast
    have "std_dev_re_s stats =
        (if 1 < length ?projected \<and> 0 < spec_range ?projected
         then spec_population_stddev ?projected else 1)"
      by (rule analyze_returns(3) [OF ne stats])
    with False show ?thesis by (simp add: Let_def stats)
  qed
next
  show "map_sum id (std_dev_re_s \<circ> snd) (simulate_then_analyze 500000 half_source cfg_dense) =
       Inl RangeError"
    by (simp add: cfg_dense_analysis_raises)
qed

theorem analyze_std_dev_witness:
  "detected_knot_base_values sim3 \<noteq> []
   \<and> map_sum id std_dev_re_s (analyzeRiemannProjection 500000 sim3) = Inr 1
   \<and> map_sum id std_dev_re_s
       (analyzeRiemannProjection 500000
          (sim3\<lparr> detected_knot_base_values := replicate 1000000 (1 / 10) \<rparr>)) = Inl RangeError"
  using analyze_std_dev [of sim3 500000]
    analyze_std_dev [of "sim3\<lparr> detected_knot_base_values := replicate 1000000 (1 / 10) \<rparr>" 500000]
  by (simp add: sim3_def spec_range_def)

text \<open>
  Claim C7. For a non-empty event log the analysis either raises, as under claim C6, or
  reports the harmony score \<open>clamp (0.6 * proximity + 0.4 * concentration) 0 1\<close> with
  \<open>proximity = 1 - min 1 (|mean - 0.5| / 0.25)\<close> and
  \<open>concentration = 1 - min 1 (stddev / 0.15)\<close>, where \<open>mean\<close> is the mean of the
  projected values and \<open>stddev\<close> their standard deviation with its fallback 1. Every
  score the analysis reports lies in \<open>[0, 1]\<close>. After the run \<^const>\<open>cfg_dense\<close> no
  score is reported.
\<close>

theorem analyze_harmony:
  "(detected_knot_base_values this \<noteq> [] \<longrightarrow>
      map_sum id harmony_score (analyzeRiemannProjection max_arguments this) =
        (let projected = map (\<lambda>raw. raw * 5 * re_s_scaling_c (params this))
                             (detected_knot_base_values this);
             mean = spec_mean projected;
             stddev = (if 1 < length projected \<and> 0 < spec_range projected
                       then spec_population_stddev projected else 1);
             proximity = 1 - min 1 (\<bar>mean - 1 / 2\<bar> / (25 / 100));
             concentration = 1 - min 1 (stddev / (15 / 100))
         in if 1 < length projected \<and> max_arguments < length projected then Inl RangeError
            else Inr (clamp (6 / 10 * proximity + 4 / 10 * concentration) 0 1)))
   \<and> (\<forall>stats. analyzeRiemannProjection max_arguments this = Inr stats \<longrightarrow>
         0 \<le> harmony_score stats \<and> harmony_score stats \<le> 1)
   \<and> map_sum id (harmony_score \<circ> snd) (simulate_then_analyze 500000 half_source cfg_dense) =
       Inl RangeError"
proof (intro conjI impI allI)
  assume ne: "detected_knot_base_values this \<noteq> []"
  let ?projected = "map (\<lambda>raw. raw * 5 * re_s_scaling_c (params this))
                        (detected_knot_base_values this)"
  show "map_sum id harmony_score (analyzeRiemannProjection max_arguments this) =
        (let projected = ?projected;
             mean = spec_mean projected;
             stddev = (if 1 < length projected \<and> 0 < spec_range projected
                       then spec_population_stddev projected else 1);
             proximity = 1 - min 1 (\<bar>mean - 1 / 2\<bar> / (25 / 100));
             concentration = 1 - min 1 (stddev / (15 / 100))
         in if 1 < length projected \<and> max_arguments < length projected then Inl RangeError
            else Inr (clamp (6 / 10 * proximity + 4 / 10 * concentration) 0 1))"
  proof (cases "1 < length (detected_knot_base_values this)
                \<and> max_arguments < length (detected_knot_base_values this)")
    case True
    then have "analyzeRiemannProjection max_arguments this = Inl RangeError"
      using analyze_raises_iff(1) [OF ne] by blast
    with True show ?thesis by (simp add: Let_def)
  next
    case False
    then obtain stats where stats: "analyzeRiemannProjection max_arguments this = Inr stats"
      using analyze_raises_iff(2) [OF ne] by blast
    note r = analyze_returns [OF ne stats]
    have "harmony_score stats =
        clamp (6 / 10 * (1 - min 1 (\<bar>spec_mean ?projected - 1 / 2\<bar> / (25 / 100)))
               + 4 / 10 * (1 - min 1 ((if 1 < length ?projected \<and> 0 < spec_range ?projected
                       then spec_population_stddev ?projected else 1) / (15 / 100)))) 0 1"
      unfolding r(6) r(1) r(3) ..
    with False show ?thesis by (simp add: Let_def stats)
  qed
next
  fix stats
  assume stats: "analyzeRiemannProjection max_arguments this = Inr stats"
  show "0 \<le> harmony_score stats" "harmony_score stats \<le> 1"
  proof -
    have "0 \<le> harmony_score stats \<and> harmony_score stats \<le> 1"
    proof (cases "detected_knot_base_values this = []")
      case True
      with stats show ?thesis
        by (auto simp add: analyzeRiemannProjection_def)
    next
      case False
      show ?thesis
        unfolding analyze_returns(6) [OF False stats] by (rule clamp_range) simp
    qed
    then show "0 \<le> harmony_score stats" "harmony_score stats \<le> 1" by simp_all
  qed
next
  show "map_sum id (harmony_score \<circ> snd) (simulate_then_analyze 500000 half_source cfg_dense) =
       Inl RangeError"
    by (simp add: cfg_dense_analysis_raises)
qed

theorem analyze_harmony_witness:
  "detected_knot_base_values sim3 \<noteq> []
   \<and> analyzeRiemannProjection 500000 sim3 =
       Inr \<lparr> mean_re_s = 1 / 2, median_re_s = 1 / 2, std_dev_re_s = 1, count_near_0_5 = 3,
             total_projected_knots = 3, harmony_score = 3 / 5, internal_prescale_factor_used = 5,
             knot_map_visual_uri = None \<rparr>
   \<and> map_sum id harmony_score (analyzeRiemannProjection 500000 sim3) = Inr (3 / 5)
   \<and> map_sum id harmony_score
       (analyzeRiemannProjection 500000 (sim3\<lparr> detected_knot_base_values := [1 / 10] \<rparr>)) =
       Inr (3 / 5)"
proof -
  have ne: "detected_knot_base_values sim3 \<noteq> []"
    by (simp add: sim3_def)
  have run: "analyzeRiemannProjection 500000 sim3 =
       Inr \<lparr> mean_re_s = 1 / 2, median_re_s = 1 / 2, std_dev_re_s = 1, count_near_0_5 = 3,
             total_projected_knots = 3, harmony_score = 3 / 5, internal_prescale_factor_used = 5,
             knot_map_visual_uri = None \<rparr>"
    by (simp add: analyzeRiemannProjection_def sim3_def Let_def projected_re_s_values_def
        internal_prescale_factor_def calculateMean_def calculateMedian_def std_dev_of_def
        calculatePtp_def target_re_s_def interval_radius_def clamp_def)
  have a: "map_sum id harmony_score (analyzeRiemannProjection 500000 sim3) = Inr (3 / 5)"
    using analyze_harmony [of sim3 500000] ne
    by (simp add: sim3_def spec_range_def spec_mean_def clamp_def)
  have b: "map_sum id harmony_score
       (analyzeRiemannProjection 500000 (sim3\<lparr> detected_knot_base_values := [1 / 10] \<rparr>)) =
       Inr (3 / 5)"
    using analyze_harmony [of "sim3\<lparr> detected_knot_base_values := [1 / 10] \<rparr>" 500000]
    by (simp add: sim3_def spec_mean_def clamp_def)
  from ne run a b show ?thesis by simp
qed

text \<open>
  Claim C10. After every run that returns, the returned total knot count is the sum of all
  entries of the returned knot map and the length of the event log. The analysis that
  follows reports that number as \<open>total_projected_knots\<close> when it returns; it raises
  \<open>RangeError\<close> instead, as under claim C6, when the total is more than one and more
  than the engine accepts as arguments. The run \<^const>\<open>cfg_dense\<close> returns a total of
  1638400 and the analysis that follows it reports nothing on an engine that accepts
  500000 arguments.
\<close>

theorem runSimulation_totals_agree:
  "(runSimulation U (this, n) = Inr (s', res) \<longrightarrow>
      total_knots res = sum_knot_map (result_knot_map res)
      \<and> total_knots res = length (detected_knot_base_values (fst s'))
      \<and> map_sum id total_projected_knots (analyzeRiemannProjection max_arguments (fst s')) =
          (if 1 < total_knots res \<and> max_arguments < total_knots res then Inl RangeError
           else Inr (total_knots res)))
   \<and> simulate_result half_source cfg_dense =
       Inr \<lparr> result_knot_map = replicate 128 (replicate 128 100), total_knots = 1638400 \<rparr>
   \<and> map_sum id (total_projected_knots \<circ> snd)
       (simulate_then_analyze 500000 half_source cfg_dense) = Inl RangeError"
proof (intro conjI impI)
  assume run: "runSimulation U (this, n) = Inr (s', res)"
  from runSimulation_run_inv [OF run] obtain fin where
    inv: "run_inv (params this) fin" and s': "s' = (fst fin, fst (snd fin))"
    and res: "res = \<lparr> result_knot_map = knot_map (fst fin), total_knots = snd (snd fin) \<rparr>"
    by blast
  from inv show sum: "total_knots res = sum_knot_map (result_knot_map res)"
    by (simp add: s' res run_inv_def)
  from inv show len: "total_knots res = length (detected_knot_base_values (fst s'))"
    by (simp add: s' res run_inv_def)
  show "map_sum id total_projected_knots (analyzeRiemannProjection max_arguments (fst s')) =
          (if 1 < total_knots res \<and> max_arguments < total_knots res then Inl RangeError
           else Inr (total_knots res))"
  proof (cases "detected_knot_base_values (fst s') = []")
    case True
    then show ?thesis
      by (simp add: len analyzeRiemannProjection_def)
  next
    case ne: False
    show ?thesis
    proof (cases "1 < total_knots res \<and> max_arguments < total_knots res")
      case True
      then have "analyzeRiemannProjection max_arguments (fst s') = Inl RangeError"
        using analyze_raises_iff(1) [OF ne] by (simp add: len)
      with True show ?thesis by simp
    next
      case False
      then obtain stats where
        stats: "analyzeRiemannProjection max_arguments (fst s') = Inr stats"
        using analyze_raises_iff(2) [OF ne] by (auto simp add: len)
      from False show ?thesis
        by (simp add: stats analyze_returns(5) [OF ne stats] len)
    qed
  qed
next
  show "simulate_result half_source cfg_dense =
       Inr \<lparr> result_knot_map = replicate 128 (replicate 128 100), total_knots = 1638400 \<rparr>"
    using cfg_dense_run by (auto simp add: simulate_result_def)
next
  show "map_sum id (total_projected_knots \<circ> snd)
       (simulate_then_analyze 500000 half_source cfg_dense) = Inl RangeError"
    by (simp add: cfg_dense_analysis_raises)
qed

theorem runSimulation_totals_agree_witness:
  "runSimulation zero_source (scenario_start, 0) =
     Inr ((scenario_final, 32),
          \<lparr> result_knot_map = [[0, 1, 1, 1], [0, 1, 1, 1], [0, 1, 1, 1], [0, 1, 1, 1]],
            total_knots = 12 \<rparr>)
   \<and> 12 = sum_knot_map [[0, 1, 1, 1], [0, 1, 1, 1], [0, 1, 1, 1], [0, 1, 1, 1]]
   \<and> 12 = length (detected_knot_base_values scenario_final)
   \<and> map_sum id total_projected_knots (analyzeRiemannProjection 500000 scenario_final) = Inr 12"
proof -
  have run: "runSimulation zero_source (scenario_start, 0) =
     Inr ((scenario_final, 32),
          \<lparr> result_knot_map = [[0, 1, 1, 1], [0, 1, 1, 1], [0, 1, 1, 1], [0, 1, 1, 1]],
            total_knots = 12 \<rparr>)"
    by (simp add: scenario_runSimulation scenario_knots_eq scenario_log_length)
  show ?thesis
    using run runSimulation_totals_agree [of zero_source scenario_start 0 "(scenario_final, 32)"
        "\<lparr> result_knot_map = [[0, 1, 1, 1], [0, 1, 1, 1], [0, 1, 1, 1], [0, 1, 1, 1]],
            total_knots = 12 \<rparr>" 500000]
    by simp
qed

section \<open>Properties of the pixel transform\<close>

text \<open>
  Claim C4, as the code behaves. The colour-temperature shift is multiplied by
  \<open>1 + fieldInfluence * s\<close> with \<open>s = 0.15 * (1 - harmony)\<close>; the saturation factor is
  multiplied by \<open>1 + fieldInfluence * s * 0.5\<close>, half that strength; the brightness delta
  is \<open>fieldInfluence * 0.10 * (1 - harmony)\<close>.
\<close>

theorem field_modulation_strengths:
  "effectiveColorTempShift harmony fieldInfluence =
     (harmony - 1 / 2) * (25 / 100) * (1 + fieldInfluence * (15 / 100 * (1 - harmony)))
   \<and> effectiveSaturationFactor harmony fieldInfluence =
     (1 + (harmony - 1 / 2) * (25 / 100)) * (1 + fieldInfluence * (75 / 1000 * (1 - harmony)))
   \<and> brightnessFieldVariation harmony fieldInfluence =
     fieldInfluence * (10 / 100 * (1 - harmony))"
  by (simp add: effectiveColorTempShift_def effectiveSaturationFactor_def
      brightnessFieldVariation_def colorTempShift_def saturationFactor_def
      fieldColorModulationStrength_def fieldBrightnessVariationStrength_def)

text \<open>
  Claim C4 as stated fails: at harmony 0 and field influence 1 the saturation factor is
  not \<open>saturationFactor * (1 + fieldInfluence * 0.15 * (1 - harmony))\<close>.
\<close>

theorem saturation_strength_is_halved:
  "effectiveSaturationFactor 0 1 \<noteq> saturationFactor 0 * (1 + 1 * (15 / 100 * (1 - 0)))"
  by (simp add: effectiveSaturationFactor_def saturationFactor_def fieldColorModulationStrength_def)

lemma categoryMods_neutral:
  "list_all (\<lambda>a. a = 1 / 2) acts \<Longrightarrow> categoryMods b c acts = (b, c)"
  unfolding categoryMods_def by (induction acts arbitrary: b c) simp_all

lemma clamp_id: "lo \<le> v \<Longrightarrow> v \<le> hi \<Longrightarrow> clamp v lo hi = v"
  by (simp add: clamp_def)

lemma byte_le: "unat (b :: 8 word) \<le> 255"
proof -
  have "unat b < 2 ^ LENGTH(8)" by (rule unsigned_less)
  then show ?thesis by simp
qed

lemma byte_unit_interval: "0 \<le> real (unat (b :: 8 word)) / 255 \<and> real (unat b) / 255 \<le> 1"
  using byte_le [of b] by (simp del: of_nat_unat)

lemma baseChannel_neutral: "baseChannel (0, 1) b = real (unat b) / 255"
  using byte_unit_interval [of b] by (simp add: baseChannel_def clamp_id del: of_nat_unat)

lemma colorMood_neutral:
  assumes "0 \<le> r" "r \<le> 1" "0 \<le> g" "g \<le> 1" "0 \<le> b" "b \<le> 1"
  shows "colorMood (1 / 2) 0 (r, g, b) = (r, g, b)"
  using assms
  by (simp add: colorMood_def Let_def effectiveColorTempShift_def effectiveSaturationFactor_def
      brightnessFieldVariation_def colorTempShift_def saturationFactor_def clamp_id)

lemma colorMood_v2_neutral:
  assumes "0 \<le> r" "r \<le> 1" "0 \<le> g" "g \<le> 1" "0 \<le> b" "b \<le> 1"
  shows "colorMood_v2 (1 / 2) 0 (r, g, b) = (r, g, b)"
  using assms
  by (simp add: colorMood_v2_def Let_def effectiveColorTempShift_def effectiveSaturationFactor_def
      brightnessFieldVariation_def colorTempShift_def saturationFactor_def clamp_id)

lemma toUint8Clamp_of_nat: "n \<le> 255 \<Longrightarrow> toUint8Clamp (real n) = word_of_nat n"
  by (auto simp add: toUint8Clamp_def Let_def)

lemma Math_round_of_nat: "Math_round (real n) = real n"
proof -
  have "\<lfloor>real n + 1 / 2\<rfloor> = int n" by linarith
  then show ?thesis by (simp add: Math_round_def)
qed

lemma store_byte_back:
  "toUint8Clamp (Math_round (clamp (real (unat (b :: 8 word))) 0 255)) = b"
  "toUint8Clamp (clamp (real (unat b)) 0 255) = b"
proof -
  have c: "clamp (real (unat b)) 0 255 = real (unat b)"
    using byte_le [of b] by (simp add: clamp_id del: of_nat_unat)
  show "toUint8Clamp (Math_round (clamp (real (unat b)) 0 255)) = b"
    "toUint8Clamp (clamp (real (unat b)) 0 255) = b"
    unfolding c Math_round_of_nat toUint8Clamp_of_nat [OF byte_le] by simp_all
qed

text \<open>
  Claim C8, as the code behaves. With brightness 0, contrast 1, every activation 0.5, the
  field influence forced to 0 and a harmony score of 0.5, a pixel's four bytes are
  returned unchanged. The harmony score matters: the colour temperature shift and the
  saturation factor depend on it alone, and are neutral only at 0.5.
\<close>

theorem neutral_transform_identity:
  assumes "list_all (\<lambda>a. a = 1 / 2) categoryActivations"
  shows "processPixel categoryActivations 0 1 (1 / 2) 0 px = px"
proof -
  obtain r g b a where px: "px = (r, g, b, a)" by (cases px) auto
  show ?thesis
    using byte_unit_interval [of r] byte_unit_interval [of g] byte_unit_interval [of b]
    by (simp add: processPixel_def px categoryMods_neutral [OF assms] baseChannel_neutral
        colorMood_neutral store_byte_back del: of_nat_unat)
qed

lemma neutral_transform_identity_v2:
  assumes "list_all (\<lambda>a. a = 1 / 2) categoryActivations"
  shows "processPixel_v2 categoryActivations 0 1 (1 / 2) 0 px = px"
proof -
  obtain r g b a where px: "px = (r, g, b, a)" by (cases px) auto
  show ?thesis
    using byte_unit_interval [of r] byte_unit_interval [of g] byte_unit_interval [of b]
    by (simp add: processPixel_v2_def px categoryMods_neutral [OF assms] baseChannel_neutral
        colorMood_v2_neutral store_byte_back del: of_nat_unat)
qed

theorem neutral_transform_identity_witness:
  "list_all (\<lambda>a. a = 1 / 2) [1 / 2, 1 / 2, 1 / 2, 1 / 2, 1 / 2, 1 / 2 :: real]
   \<and> processPixel [1 / 2, 1 / 2, 1 / 2, 1 / 2, 1 / 2, 1 / 2] 0 1 (1 / 2) 0 (100, 100, 100, 255)
       = (100, 100, 100, 255)"
proof -
  have n: "list_all (\<lambda>a. a = 1 / 2) [1 / 2, 1 / 2, 1 / 2, 1 / 2, 1 / 2, 1 / 2 :: real]"
    by simp
  show ?thesis
    using n neutral_transform_identity [OF n, of "(100, 100, 100, 255)"] by (rule conjI)
qed

lemma neutral6: "categoryMods 0 1 [1 / 2, 1 / 2, 1 / 2, 1 / 2, 1 / 2, 1 / 2] = (0, 1)"
  by (rule categoryMods_neutral) simp

lemma base100: "baseChannel (0, 1) (100 :: 8 word) = 20 / 51"
  by (simp add: baseChannel_neutral)

lemma mood_at_full_harmony:
  "effectiveColorTempShift 1 fi = 1 / 8"
  "effectiveSaturationFactor 1 fi = 9 / 8"
  "brightnessFieldVariation 1 fi = 0"
  by (simp_all add: effectiveColorTempShift_def effectiveSaturationFactor_def
      brightnessFieldVariation_def colorTempShift_def saturationFactor_def
      fieldColorModulationStrength_def fieldBrightnessVariationStrength_def)

lemma mood100:
  "colorMood 1 fi (20 / 51, 20 / 51, 20 / 51) =
     (6833143 / 16320000, 6603643 / 16320000, 6029893 / 16320000)"
  unfolding colorMood_def Let_def mood_at_full_harmony fst_conv snd_conv
  by (simp add: clamp_id)

lemma Math_round_eq:
  "real_of_int n \<le> x + 1 / 2 \<Longrightarrow> x + 1 / 2 < real_of_int n + 1 \<Longrightarrow> Math_round x = real_of_int n"
  unfolding Math_round_def by (simp add: floor_eq_iff)

lemma store_rounded:
  assumes "real n \<le> x * 255 + 1 / 2" "x * 255 + 1 / 2 < real n + 1" "n \<le> 255" "0 \<le> x" "x \<le> 1"
  shows "toUint8Clamp (Math_round (clamp (x * 255) 0 255)) = word_of_nat n"
proof -
  have c: "clamp (x * 255) 0 255 = x * 255"
    using assms(4,5) by (simp add: clamp_id)
  have r: "Math_round (x * 255) = real n"
    using Math_round_eq [of "int n" "x * 255"] assms(1,2) by simp
  show ?thesis
    unfolding c r using assms(3) by (rule toUint8Clamp_of_nat)
qed

lemma pixel_at_full_harmony:
  "processPixel [1 / 2, 1 / 2, 1 / 2, 1 / 2, 1 / 2, 1 / 2] 0 1 1 fi (100, 100, 100, 255)
     = (107, 103, 94, 255)"
proof -
  have r: "toUint8Clamp (Math_round (clamp (6833143 / 16320000 * 255) 0 255)) = 107"
    using store_rounded [of 107 "6833143 / 16320000"] by simp
  have g: "toUint8Clamp (Math_round (clamp (6603643 / 16320000 * 255) 0 255)) = 103"
    using store_rounded [of 103 "6603643 / 16320000"] by simp
  have b: "toUint8Clamp (Math_round (clamp (6029893 / 16320000 * 255) 0 255)) = 94"
    using store_rounded [of 94 "6029893 / 16320000"] by simp
  show ?thesis
    unfolding processPixel_def Let_def neutral6 fst_conv snd_conv base100 mood100 r g b ..
qed

text \<open>
  Claim C8 as stated fails: with the neutral sliders and activations and a field influence
  of 0, but a harmony score of 1, the grey pixel \<open>(100, 100, 100)\<close> becomes
  \<open>(107, 103, 94)\<close>.
\<close>

theorem neutral_transform_needs_mid_harmony:
  "processPixel [1 / 2, 1 / 2, 1 / 2, 1 / 2, 1 / 2, 1 / 2] 0 1 1 0 (100, 100, 100, 255)
     = (107, 103, 94, 255)"
  by (rule pixel_at_full_harmony)

lemma image1_cell:
  "transform_cell (processPixel [1 / 2, 1 / 2, 1 / 2, 1 / 2, 1 / 2, 1 / 2] 0 1 1) 1 ox oy w hh 0 0 [[0]] 0
     heap1 0 = Inr (heap1\<lparr> buffers := [0 \<mapsto> [107, 103, 94, 255]] \<rparr>)"
  by (simp add: transform_cell_def Let_def heap1_def buffer_at_def write_byte_def
      pixel_at_full_harmony)

text \<open>
  Claim C1 on the first version: it returns the input image itself, a view on the input's
  buffer, and the input's bytes \<open>[100, 100, 100, 255]\<close> have become
  \<open>[107, 103, 94, 255]\<close>. The second version, by \<open>processImageWithSubQG_v2_frame\<close>
  and \<open>processImageWithSubQG_v2_keeps_input\<close> below, writes to a buffer of its own and
  leaves the input as it was.
\<close>

theorem processImageWithSubQG_overwrites_input:
  "processImageWithSubQG zero_source (heap1, 0) image1 [1 / 2, 1 / 2, 1 / 2, 1 / 2, 1 / 2, 1 / 2]
       0 1 [[0]] 1 =
     Inr ((heap1\<lparr> buffers := [0 \<mapsto> [107, 103, 94, 255]] \<rparr>, 2), image1)"
  by (simp add: processImageWithSubQG_def Let_def image1_def transform_loop_def image1_cell)

lemma foldM_invariant:
  assumes "P s" and "\<And>s x. P s \<Longrightarrow> x \<in> set xs \<Longrightarrow> \<exists>s'. f s x = Inr s' \<and> P s'"
  shows "\<exists>s'. foldM f s xs = Inr s' \<and> P s'"
  using assms
proof (induction xs arbitrary: s)
  case Nil
  then show ?case by simp
next
  case (Cons x xs)
  from Cons.prems obtain s1 where s1: "f s x = Inr s1" "P s1"
    by fastforce
  have "\<exists>s'. foldM f s1 xs = Inr s' \<and> P s'"
    by (rule Cons.IH [OF s1(2)]) (use Cons.prems(2) in auto)
  with s1 show ?case by simp
qed

lemma next_buffer_write_byte [simp]: "next_buffer (write_byte h a i v) = next_buffer h"
  by (simp add: write_byte_def)

lemma buffer_at_write_byte [simp]:
  "buffer_at (write_byte h a i v) a' = (if a' = a then (buffer_at h a)[i := v] else buffer_at h a')"
  by (simp add: write_byte_def buffer_at_def)

lemma buffers_write_byte_other [simp]:
  "a' \<noteq> a \<Longrightarrow> buffers (write_byte h a i v) a' = buffers h a'"
  by (simp add: write_byte_def)

lemma nth_write_pixel:
  fixes p i :: nat
  assumes "p mod 4 = 0" "i mod 4 = 3" "i < length xs"
  shows "xs[p := a, Suc p := b, Suc (Suc p) := c, p + 3 := d] ! i = (if i = p + 3 then d else xs ! i)"
proof -
  from assms(1,2) have "i \<noteq> p" "i \<noteq> Suc p" "i \<noteq> Suc (Suc p)"
    by presburger+
  with assms(3) show ?thesis
    by (simp add: nth_list_update)
qed

lemma transform_cell_frame:
  assumes "frame_inv h0 orig new h" "orig \<noteq> new" "r < length m"
  shows "\<exists>h'. transform_cell px hs ox oy w hh orig new m r h c = Inr h' \<and> frame_inv h0 orig new h'"
proof -
  from assms(1,2) have o: "buffer_at h orig = buffer_at h0 orig"
    by (simp add: frame_inv_def buffer_at_def)
  have p: "(r * w * 4 + c * 4) mod 4 = 0"
    by presburger
  show ?thesis
    using assms o
    by (auto simp add: transform_cell_def Let_def frame_inv_def nth_write_pixel [OF p])
qed

lemma transform_loop_frame:
  assumes "frame_inv h0 orig new h" "orig \<noteq> new" "hh \<le> length m"
  shows "\<exists>h'. transform_loop px hs ox oy w hh orig new m h = Inr h' \<and> frame_inv h0 orig new h'"
  unfolding transform_loop_def
proof (rule foldM_invariant [where P = "frame_inv h0 orig new", OF assms(1)])
  fix s r assume s: "frame_inv h0 orig new s" and r: "r \<in> set [0..<hh]"
  then have rm: "r < length m" using assms(3) by simp
  show "\<exists>s'. foldM (transform_cell px hs ox oy w hh orig new m r) s [0..<w] = Inr s'
          \<and> frame_inv h0 orig new s'"
    by (rule foldM_invariant [where P = "frame_inv h0 orig new", OF s])
       (rule transform_cell_frame [OF _ assms(2) rm])
qed


lemma processImageWithSubQG_v2_frame:
  assumes "wf_image h img" "matching_dimensions m img"
  shows "\<exists>h'. processImageWithSubQG_v2 U (h, n) img acts b c m hs =
           Inr ((h', n + 2),
                \<lparr> width = width img, height = height img, data = Suc (next_buffer h) \<rparr>)
         \<and> data img < next_buffer h
         \<and> buffers h' (data img) = buffers h (data img)
         \<and> length (buffer_at h' (Suc (next_buffer h))) = 4 * width img * height img
         \<and> (\<forall>i < width img * height img.
               buffer_at h' (Suc (next_buffer h)) ! (4 * i + 3) = buffer_at h (data img) ! (4 * i + 3))"
proof -
  let ?orig = "data img" and ?N = "next_buffer h"
  let ?bs = "buffer_at h ?orig"
  let ?h2 = "h\<lparr> buffers := (buffers h)(?N \<mapsto> ?bs, Suc ?N \<mapsto> ?bs), next_buffer := Suc (Suc ?N) \<rparr>"
  from assms(1) have lt: "?orig < ?N" and len: "length ?bs = 4 * width img * height img"
    by (auto simp add: wf_image_def buffer_at_def split: option.splits)
  have copies: "alloc_buffer (fst (alloc_buffer h ?bs))
        (buffer_at (fst (alloc_buffer h ?bs)) (snd (alloc_buffer h ?bs))) = (?h2, Suc ?N)"
    by (simp add: alloc_buffer_def buffer_at_def)
  have init: "frame_inv ?h2 ?orig (Suc ?N) ?h2"
    using lt by (simp add: frame_inv_def buffer_at_def)
  have ne: "?orig \<noteq> Suc ?N" using lt by simp
  have rows: "height img \<le> length m"
    using assms(2) by (simp add: matching_dimensions_def grid_shape_def)
  obtain h' where loop: "transform_loop (processPixel_v2 acts b c hs) hs (U n * Math_PI * 2)
        (U (n + 1) * Math_PI * 2) (width img) (height img) ?orig (Suc ?N) m ?h2 = Inr h'"
    and inv: "frame_inv ?h2 ?orig (Suc ?N) h'"
    using transform_loop_frame [OF init ne rows] by blast
  have res: "processImageWithSubQG_v2 U (h, n) img acts b c m hs =
      Inr ((h', n + 2), \<lparr> width = width img, height = height img, data = Suc ?N \<rparr>)"
    unfolding processImageWithSubQG_v2_def Let_def fst_conv snd_conv copies
    using loop by simp
  have same: "buffers h' ?orig = buffers h ?orig"
    using inv lt by (simp add: frame_inv_def)
  have new_len: "length (buffer_at h' (Suc ?N)) = 4 * width img * height img"
    using inv len by (simp add: frame_inv_def buffer_at_def)
  have alpha: "buffer_at h' (Suc ?N) ! (4 * i + 3) = ?bs ! (4 * i + 3)" if "i < width img * height img" for i
  proof -
    have "4 * i + 3 < length (buffer_at ?h2 (Suc ?N))"
      using that len by (simp add: buffer_at_def)
    moreover have "(4 * i + 3) mod 4 = 3" by presburger
    ultimately have "buffer_at h' (Suc ?N) ! (4 * i + 3) = buffer_at ?h2 ?orig ! (4 * i + 3)"
      using inv by (simp add: frame_inv_def)
    also have "buffer_at ?h2 ?orig = ?bs"
      using lt by (simp add: buffer_at_def)
    finally show ?thesis .
  qed
  from res lt same new_len alpha show ?thesis by blast
qed

lemma processImageWithSubQG_shares_buffer:
  "processImageWithSubQG U s img acts b c m hs = Inr (s', img') \<Longrightarrow> img' = img"
  by (auto simp add: processImageWithSubQG_def Let_def split: sum.splits)

text \<open>
  On the one-pixel image the second version writes the same bytes, to a third buffer, and
  the input's buffer keeps its bytes.
\<close>

lemma mood100_v2:
  "colorMood_v2 1 fi (20 / 51, 20 / 51, 20 / 51) =
     (6833143 / 16320000, 6603643 / 16320000, 6029893 / 16320000)"
  unfolding colorMood_v2_def Let_def mood_at_full_harmony fst_conv snd_conv
  by (simp add: clamp_id)

lemma toUint8Clamp_up:
  assumes "0 < x" "x < 255" "real n \<le> x" "x < real n + 1" "real n + 1 / 2 < x"
  shows "toUint8Clamp x = word_of_nat (Suc n)"
proof -
  have f: "\<lfloor>x\<rfloor> = int n"
    using assms(3,4) by (simp add: floor_eq_iff)
  show ?thesis
    using assms(1,2,5) by (simp add: toUint8Clamp_def Let_def f)
qed

lemma toUint8Clamp_down:
  assumes "0 < x" "x < 255" "real n \<le> x" "x < real n + 1 / 2"
  shows "toUint8Clamp x = word_of_nat n"
proof -
  have f: "\<lfloor>x\<rfloor> = int n"
    using assms(3,4) by (simp add: floor_eq_iff)
  show ?thesis
    using assms(1,2,4) by (simp add: toUint8Clamp_def Let_def f)
qed

lemma pixel_v2_at_full_harmony:
  "processPixel_v2 [1 / 2, 1 / 2, 1 / 2, 1 / 2, 1 / 2, 1 / 2] 0 1 1 fi (100, 100, 100, 255)
     = (107, 103, 94, 255)"
proof -
  have c: "clamp (6833143 / 16320000 * 255) 0 255 = 6833143 / 64000"
    "clamp (6603643 / 16320000 * 255) 0 255 = 6603643 / 64000"
    "clamp (6029893 / 16320000 * 255) 0 255 = 6029893 / 64000"
    by (simp_all add: clamp_id)
  have r: "toUint8Clamp (6833143 / 64000) = 107"
    using toUint8Clamp_up [of "6833143 / 64000" 106] by simp
  have g: "toUint8Clamp (6603643 / 64000) = 103"
    using toUint8Clamp_down [of "6603643 / 64000" 103] by simp
  have b: "toUint8Clamp (6029893 / 64000) = 94"
    using toUint8Clamp_down [of "6029893 / 64000" 94] by simp
  show ?thesis
    unfolding processPixel_v2_def Let_def neutral6 fst_conv snd_conv base100 mood100_v2 c r g b ..
qed

lemma image1_cell_v2:
  "transform_cell (processPixel_v2 [1 / 2, 1 / 2, 1 / 2, 1 / 2, 1 / 2, 1 / 2] 0 1 1) 1 ox oy w hh 0 2 [[0]] 0
     heap1_copied 0 = Inr heap1_transformed"
  by (simp add: transform_cell_def Let_def buffer_at_def write_byte_def pixel_v2_at_full_harmony
      heap1_copied_def heap1_transformed_def)

lemma processImageWithSubQG_v2_keeps_input:
  "processImageWithSubQG_v2 zero_source (heap1, 0) image1 [1 / 2, 1 / 2, 1 / 2, 1 / 2, 1 / 2, 1 / 2]
       0 1 [[0]] 1 =
     Inr ((heap1_transformed, 2), \<lparr> width = 1, height = 1, data = 2 \<rparr>)
   \<and> buffers heap1_transformed 0 = buffers heap1 0"
proof -
  have a: "alloc_buffer (fst (alloc_buffer heap1 (buffer_at heap1 0)))
      (buffer_at (fst (alloc_buffer heap1 (buffer_at heap1 0))) (snd (alloc_buffer heap1 (buffer_at heap1 0)))) =
    (heap1_copied, 2)"
    by (simp add: alloc_buffer_def buffer_at_def heap1_def heap1_copied_def eval_nat_numeral)
  have "processImageWithSubQG_v2 zero_source (heap1, 0) image1 [1 / 2, 1 / 2, 1 / 2, 1 / 2, 1 / 2, 1 / 2]
       0 1 [[0]] 1 = Inr ((heap1_transformed, 2), \<lparr> width = 1, height = 1, data = 2 \<rparr>)"
    unfolding processImageWithSubQG_v2_def Let_def fst_conv snd_conv image1_def ImageData.simps a
    by (simp add: transform_loop_def image1_cell_v2)
  then show ?thesis
    by (simp add: heap1_transformed_def heap1_def)
qed

section \<open>Properties of the knot map resampler\<close>



























end
